theory Spec2Isabelle
  imports Main "HOL-Library.Word" "HOL-Library.AList"
begin

section \<open>The mesh client of canary-bot (mesh/client.go)\<close>

text \<open>
  A shallow embedding of the client side of the mesh protocol: \<open>Join\<close>,
  \<open>NodeDiscovery\<close>, \<open>pushSamples\<close>, \<open>initClient\<close>, \<open>closeClient\<close> and \<open>Rtt\<close>.
  The receiver \<open>m *Mesh\<close> is a record that every function takes and returns updated.
  Everything outside the process (the gRPC transport, the TLS credential loader, the
  clock, the random source) is an oracle of the record \<open>world\<close>; each oracle is asked
  with the number of network events that happened before (or the number of earlier
  clock readings), so that two calls with the same arguments may answer differently.
  A nil pointer dereference and a \<open>Lock\<close> of a mutex that is already held do not return:
  they are the values \<open>NilDereference\<close> and \<open>Deadlock\<close> of the type \<open>abort\<close>.
\<close>

subsection \<open>Wire messages (package meshv1)\<close>

record meshv1_Node =
  meshv1_Name :: string
  meshv1_Target :: string

record JoinMeshResponse =
  NameUnique :: bool
  MyName :: string
  Nodes :: "meshv1_Node list"

record NodeDiscoveryRequest =
  NewNode :: meshv1_Node
  IAmNode :: meshv1_Node

record meshv1_Sample =
  meshv1_From :: string
  meshv1_To :: string
  meshv1_Key :: int
  meshv1_Value :: string
  meshv1_Ts :: int

subsection \<open>The records of package data\<close>

record data_Node =
  Node_Id :: "32 word"
  Node_Name :: string
  Node_Target :: string
  Node_State :: int
  Node_StateChangeTs :: int

record data_Sample =
  Sample_Id :: "32 word"
  Sample_From :: string
  Sample_To :: string
  Sample_Key :: int
  Sample_Value :: string
  Sample_Ts :: int

record Database =
  node_table :: "(32 word \<times> data_Node) list"
  sample_table :: "(32 word \<times> data_Sample) list"

subsection \<open>Transport, clock and configuration\<close>

datatype DialOption =
  WithTransportCredentials_insecure
  | WithTransportCredentials_tls
  | WithUnaryInterceptor_timeout
  | WithBlock

record ClientConn =
  Conn_id :: nat
  Conn_target :: string

datatype MeshServiceClient = NewMeshServiceClient ClientConn

record MeshClient =
  conn :: ClientConn
  client :: MeshServiceClient

datatype request =
  JoinMeshRequest meshv1_Node
  | NodeDiscoveryCall NodeDiscoveryRequest
  | PushSamplesRequest "meshv1_Sample list"
  | RttRequest

datatype event =
  Dial string "DialOption list"
  | Call ClientConn request
  | CloseConn ClientConn

datatype error = DialError | RpcError | CloseError

datatype abort = NilDereference | Deadlock

datatype level = DebugLevel | InfoLevel | WarnLevel

text \<open>
  A \<open>time.Time\<close> as \<open>time.Now()\<close> returns it: the monotonic reading in nanoseconds,
  which \<open>Sub\<close> uses, and the wall clock in seconds, which \<open>Unix()\<close> returns.
\<close>

record Time =
  Time_mono :: int
  Time_Unix :: int

record SetupConfig =
  Config_Name :: string
  Config_JoinAddress :: string
  Config_ListenAddress :: string
  Config_ListenPort :: int
  Config_DebugGrpc :: bool
  Config_CaCertPath :: string
  Config_CaCert :: string

text \<open>
  The constants and functions that the file uses and does not define (\<open>helper.Hash\<close>,
  \<open>NODE_OK\<close>, \<open>data.RTT_TOTAL\<close>, \<open>data.RTT_REQUEST\<close>, \<open>data.SampleName\<close>,
  \<open>helper.LoadClientTLSCredentials\<close>) are parameters, next to the oracles of the
  transport: \<open>grpc_Dial\<close> and the \<open>rpc_\<close> oracles answer \<open>True\<close> (or \<open>Some\<close> response)
  when the call returns a nil error; the per-call timeout of \<open>timeoutInterceptor\<close> is one
  of the reasons for which an \<open>rpc_\<close> oracle may answer with an error.
\<close>

record world =
  Hash :: "string \<Rightarrow> 32 word"
  NODE_OK :: int
  RTT_TOTAL :: int
  RTT_REQUEST :: int
  SampleName :: "int \<Rightarrow> string"
  LoadClientTLSCredentials :: "string \<Rightarrow> string \<Rightarrow> bool"
  grpc_Dial :: "nat \<Rightarrow> string \<Rightarrow> DialOption list \<Rightarrow> bool"
  rpc_JoinMesh :: "nat \<Rightarrow> ClientConn \<Rightarrow> meshv1_Node \<Rightarrow> JoinMeshResponse option"
  rpc_NodeDiscovery :: "nat \<Rightarrow> ClientConn \<Rightarrow> NodeDiscoveryRequest \<Rightarrow> bool"
  rpc_PushSamples :: "nat \<Rightarrow> ClientConn \<Rightarrow> meshv1_Sample list \<Rightarrow> bool"
  rpc_Rtt :: "nat \<Rightarrow> ClientConn \<Rightarrow> bool"
  conn_Close :: "nat \<Rightarrow> ClientConn \<Rightarrow> bool"
  time_Now :: "nat \<Rightarrow> Time"
  rand :: "nat \<Rightarrow> nat"

text \<open>
  The receiver. \<open>mu\<close> is \<open>True\<close> while the mutex is held; \<open>trace\<close> lists the network
  events in the order they happened; \<open>metrics\<close> lists the observations of the RTT
  histogram as (sample kind, peer name, duration in nanoseconds), the duration standing
  for the floating point seconds that the code passes; \<open>logger\<close> lists the log lines as
  (logger name, level, message), without their key-value arguments.
\<close>

record Mesh =
  setupConfig :: SetupConfig
  clients :: "32 word \<rightharpoonup> MeshClient"
  mu :: bool
  database :: Database
  metrics :: "(string \<times> string \<times> int) list"
  logger :: "(string \<times> level \<times> string) list"
  trace :: "event list"
  ticks :: nat
  grpcLogger :: bool

definition logw :: "string \<Rightarrow> level \<Rightarrow> string \<Rightarrow> Mesh \<Rightarrow> Mesh" where
  "logw name lvl msg m = m\<lparr>logger := logger m @ [(name, lvl, msg)]\<rparr>"

definition Lock :: "Mesh \<Rightarrow> Mesh option" where
  "Lock m = (if mu m then None else Some (m\<lparr>mu := True\<rparr>))"

definition Unlock :: "Mesh \<Rightarrow> Mesh" where
  "Unlock m = m\<lparr>mu := False\<rparr>"

definition ReplaceGrpcLoggerV2 :: "Mesh \<Rightarrow> Mesh" where
  "ReplaceGrpcLoggerV2 m = m\<lparr>grpcLogger := True\<rparr>"

definition Dial_call :: "world \<Rightarrow> Mesh \<Rightarrow> string \<Rightarrow> DialOption list \<Rightarrow> ClientConn option \<times> Mesh" where
  "Dial_call w m target opts =
     (let n = length (trace m);
          m' = m\<lparr>trace := trace m @ [Dial target opts]\<rparr>
      in if grpc_Dial w n target opts
         then (Some \<lparr>Conn_id = n, Conn_target = target\<rparr>, m')
         else (None, m'))"

definition JoinMesh :: "world \<Rightarrow> Mesh \<Rightarrow> MeshServiceClient \<Rightarrow> meshv1_Node \<Rightarrow> JoinMeshResponse option \<times> Mesh" where
  "JoinMesh w m c req =
     (case c of NewMeshServiceClient cc \<Rightarrow>
        (rpc_JoinMesh w (length (trace m)) cc req,
         m\<lparr>trace := trace m @ [Call cc (JoinMeshRequest req)]\<rparr>))"

definition NodeDiscovery_rpc :: "world \<Rightarrow> Mesh \<Rightarrow> MeshServiceClient \<Rightarrow> NodeDiscoveryRequest \<Rightarrow> error option \<times> Mesh" where
  "NodeDiscovery_rpc w m c req =
     (case c of NewMeshServiceClient cc \<Rightarrow>
        (if rpc_NodeDiscovery w (length (trace m)) cc req then None else Some RpcError,
         m\<lparr>trace := trace m @ [Call cc (NodeDiscoveryCall req)]\<rparr>))"

definition PushSamples_rpc :: "world \<Rightarrow> Mesh \<Rightarrow> MeshServiceClient \<Rightarrow> meshv1_Sample list \<Rightarrow> error option \<times> Mesh" where
  "PushSamples_rpc w m c samples =
     (case c of NewMeshServiceClient cc \<Rightarrow>
        (if rpc_PushSamples w (length (trace m)) cc samples then None else Some RpcError,
         m\<lparr>trace := trace m @ [Call cc (PushSamplesRequest samples)]\<rparr>))"

definition Rtt_rpc :: "world \<Rightarrow> Mesh \<Rightarrow> MeshServiceClient \<Rightarrow> error option \<times> Mesh" where
  "Rtt_rpc w m c =
     (case c of NewMeshServiceClient cc \<Rightarrow>
        (if rpc_Rtt w (length (trace m)) cc then None else Some RpcError,
         m\<lparr>trace := trace m @ [Call cc RttRequest]\<rparr>))"

definition Close_call :: "world \<Rightarrow> Mesh \<Rightarrow> ClientConn \<Rightarrow> error option \<times> Mesh" where
  "Close_call w m cc =
     (if conn_Close w (length (trace m)) cc then None else Some CloseError,
      m\<lparr>trace := trace m @ [CloseConn cc]\<rparr>)"

definition Now :: "world \<Rightarrow> Mesh \<Rightarrow> Time \<times> Mesh" where
  "Now w m = (time_Now w (ticks m), m\<lparr>ticks := Suc (ticks m)\<rparr>)"

subsection \<open>Identity and the state store\<close>

text \<open>
  Modelled from the spec: \<open>GetId\<close> of package mesh is not in the sources. A node's id
  is the hash of its target alone (spec, section 3; \<open>Test_GetId\<close> of package data
  expects the same of its own \<open>GetId\<close>).
\<close>

definition GetId :: "world \<Rightarrow> meshv1_Node \<Rightarrow> 32 word" where
  "GetId w n = Hash w (meshv1_Target n)"

text \<open>
  Modelled from the spec: \<open>data.Convert\<close> is not in the sources. \<open>Test_Convert\<close> and
  the spec (section 8) give the record it returns: the id is the hash of the target,
  the state is the one supplied, the time of the last state change is 0.
\<close>

definition Convert :: "world \<Rightarrow> meshv1_Node \<Rightarrow> int \<Rightarrow> data_Node" where
  "Convert w n state =
     \<lparr>Node_Id = Hash w (meshv1_Target n), Node_Name = meshv1_Name n,
      Node_Target = meshv1_Target n, Node_State = state, Node_StateChangeTs = 0\<rparr>"

text \<open>
  Modelled from the spec: \<open>Database.SetNode\<close> is not in the sources. It is an upsert
  by id: a record with the same id is overwritten, any other id gets a new record
  (spec, section 3).
\<close>

definition SetNode :: "Database \<Rightarrow> data_Node \<Rightarrow> Database" where
  "SetNode db n = db\<lparr>node_table := AList.update (Node_Id n) n (node_table db)\<rparr>"

text \<open>
  Modelled from the spec: \<open>data.GetSampleId\<close> and \<open>Database.SetSample\<close> are not in the
  sources. The id of a sample is the hash of \<open>from\<close>, \<open>to\<close> and the decimal \<open>key\<close>
  concatenated (\<open>Test_GetSampleId\<close>), and \<open>SetSample\<close> is an upsert by that id.
\<close>

function digits :: "nat \<Rightarrow> string" where
  "digits n =
     (if n < 10 then [char_of (48 + n)]
      else digits (n div 10) @ [char_of (48 + n mod 10)])"
  by pat_completeness auto
termination
  by (relation "measure id") auto

declare digits.simps [simp del]

definition FormatInt :: "int \<Rightarrow> string" where
  "FormatInt i = (if i < 0 then CHR ''-'' # digits (nat (- i)) else digits (nat i))"

definition GetSampleId :: "world \<Rightarrow> data_Sample \<Rightarrow> 32 word" where
  "GetSampleId w s = Hash w (Sample_From s @ Sample_To s @ FormatInt (Sample_Key s))"

definition SetSample :: "world \<Rightarrow> Database \<Rightarrow> data_Sample \<Rightarrow> Database" where
  "SetSample w db s =
     (let s' = s\<lparr>Sample_Id := GetSampleId w s\<rparr>
      in db\<lparr>sample_table := AList.update (Sample_Id s') s' (sample_table db)\<rparr>)"

text \<open>
  Modelled from the spec: \<open>Database.GetSampleList\<close> is not in the sources. It returns
  the samples of the store.
\<close>

definition GetSampleList :: "Database \<Rightarrow> data_Sample list" where
  "GetSampleList db = map snd (sample_table db)"

text \<open>
  Modelled from the spec: \<open>Database.GetRandomNodeListByState\<close> is not in the sources.
  It returns at most \<open>amount\<close> nodes chosen at random among the nodes of the store
  that are in the given state, and nil (the empty list) when no node is in that state
  (spec, section 4.7, step 1). The random choice is the rotation by \<open>r\<close>.
\<close>

definition GetRandomNodeListByState :: "Database \<Rightarrow> int \<Rightarrow> nat \<Rightarrow> nat \<Rightarrow> data_Node list" where
  "GetRandomNodeListByState db byState amount r =
     (let nodes = filter (\<lambda>n. Node_State n = byState) (map snd (node_table db))
      in if nodes = [] then [] else take amount (rotate r nodes))"

subsection \<open>initClient\<close>

definition initClient :: "world \<Rightarrow> Mesh \<Rightarrow> meshv1_Node \<Rightarrow> Mesh \<times> (abort + error option)" where
  "initClient w m to =
     (let nodeId = GetId w to;
          m1 = logw ''client'' DebugLevel ''Init client'' m;
          m2 = (if Config_DebugGrpc (setupConfig m1) then ReplaceGrpcLoggerV2 m1 else m1)
      in if clients m2 nodeId = None then
           (let (opts, m3) =
                  (if \<not> LoadClientTLSCredentials w (Config_CaCertPath (setupConfig m2))
                          (Config_CaCert (setupConfig m2))
                   then ([WithTransportCredentials_insecure],
                         logw ''client'' DebugLevel
                           ''Cannot load TLS credentials - starting insecure connection'' m2)
                   else ([WithTransportCredentials_tls], m2));
                opts' = opts @ [WithUnaryInterceptor_timeout]
            in case Dial_call w m3 (meshv1_Target to) opts' of
                 (None, m4) \<Rightarrow> (logw ''client'' DebugLevel ''Dial error'' m4, Inr (Some DialError))
               | (Some cc, m4) \<Rightarrow>
                   (case Lock m4 of
                      None \<Rightarrow> (m4, Inl Deadlock)
                    | Some m5 \<Rightarrow>
                        (Unlock (m5\<lparr>clients := (clients m5)(nodeId \<mapsto>
                            \<lparr>conn = cc, client = NewMeshServiceClient cc\<rparr>)\<rparr>),
                         Inr None)))
         else (logw ''client'' DebugLevel ''Client already existed'' m2, Inr None))"

subsection \<open>Join\<close>

text \<open>
  One round of the loop over the candidates ends in \<open>continue\<close>, in \<open>break\<close>, in a
  \<open>return\<close> or does not return; \<open>continue\<close> and \<open>break\<close> carry the variable \<open>res\<close>.
\<close>

datatype step =
  Continue "JoinMeshResponse option"
  | Break "JoinMeshResponse option"
  | Return bool bool
  | Abort abort

definition Join_body :: "world \<Rightarrow> string list \<Rightarrow> nat \<Rightarrow> string \<Rightarrow> JoinMeshResponse option \<Rightarrow> Mesh \<Rightarrow> Mesh \<times> step" where
  "Join_body w targets index target res m =
     (let m1 = logw ''join-routine'' DebugLevel ''Index %+v Targets: %+v'' m;
          node = \<lparr>meshv1_Name = '''', meshv1_Target = target\<rparr>
      in case initClient w m1 node of
           (m2, Inl a) \<Rightarrow> (m2, Abort a)
         | (m2, Inr (Some err)) \<Rightarrow>
             (let m3 = logw '''' DebugLevel
                         ''Could not connect to client, joinMesh request failed'' m2
              in if int index \<noteq> int (length targets) - 1
                 then (logw ''join-routine'' DebugLevel ''Trying next node'' m3, Continue res)
                 else (m3, Return False True))
         | (m2, Inr None) \<Rightarrow>
             (case clients m2 (GetId w node) of
                None \<Rightarrow> (m2, Abort NilDereference)
              | Some c \<Rightarrow>
                  (case JoinMesh w m2 (client c)
                          \<lparr>meshv1_Name = Config_Name (setupConfig m2),
                           meshv1_Target = Config_JoinAddress (setupConfig m2)\<rparr> of
                     (None, m3) \<Rightarrow>
                       (let m4 = logw '''' DebugLevel
                                   ''Client connected, but joinMesh request failed'' m3
                        in if int index \<noteq> int (length targets) - 1
                           then (logw ''join-routine'' DebugLevel ''Trying next node'' m4,
                                 Continue None)
                           else (m4, Return False True))
                   | (Some r, m3) \<Rightarrow>
                       (if \<not> NameUnique r
                        then (logw ''join-routine'' DebugLevel
                                ''Node name is not unique in mesh'' m3, Return True False)
                        else
                          (let node' = node\<lparr>meshv1_Name := MyName r\<rparr>;
                               m4 = m3\<lparr>database := SetNode (database m3)
                                                      (Convert w node' (NODE_OK w))\<rparr>
                           in (logw ''join-routine'' InfoLevel ''Joined mesh'' m4,
                               Break (Some r)))))))"

text \<open>
  The loop \<open>for index, target := range targets\<close>: the last argument but two is the part
  of \<open>targets\<close> still to visit. When the range is exhausted the code after the loop
  runs, as it does after \<open>break\<close>.
\<close>

fun Join_loop :: "world \<Rightarrow> string list \<Rightarrow> nat \<Rightarrow> string list \<Rightarrow> JoinMeshResponse option \<Rightarrow> Mesh \<Rightarrow> Mesh \<times> step" where
  "Join_loop w targets index [] res m = (m, Break res)"
| "Join_loop w targets index (target # rest) res m =
     (case Join_body w targets index target res m of
        (m', Continue res') \<Rightarrow> Join_loop w targets (Suc index) rest res' m'
      | (m', s) \<Rightarrow> (m', s))"

text \<open>The loop over \<open>res.Nodes\<close> after the candidates.\<close>

fun Join_nodes :: "world \<Rightarrow> meshv1_Node list \<Rightarrow> Mesh \<Rightarrow> Mesh" where
  "Join_nodes w [] m = m"
| "Join_nodes w (node # rest) m =
     (if GetId w node \<noteq> GetId w \<lparr>meshv1_Name = Config_Name (setupConfig m),
                                   meshv1_Target = Config_JoinAddress (setupConfig m)\<rparr>
      then Join_nodes w rest (m\<lparr>database := SetNode (database m) (Convert w node (NODE_OK w))\<rparr>)
      else Join_nodes w rest m)"

text \<open>
  The code after the loop reads \<open>res.Nodes\<close>: a nil pointer dereference when \<open>res\<close> is
  nil.
\<close>

definition Join_after :: "world \<Rightarrow> JoinMeshResponse option \<Rightarrow> Mesh \<Rightarrow> Mesh \<times> (abort + bool \<times> bool)" where
  "Join_after w res m =
     (case res of
        None \<Rightarrow> (m, Inl NilDereference)
      | Some r \<Rightarrow> (Join_nodes w (Nodes r) m, Inr (True, True)))"

definition Join :: "world \<Rightarrow> Mesh \<Rightarrow> string list \<Rightarrow> Mesh \<times> (abort + bool \<times> bool)" where
  "Join w m targets =
     (let m0 = logw ''join-routine'' DebugLevel ''Starting'' m
      in case Join_loop w targets 0 targets None m0 of
           (m1, Abort a) \<Rightarrow> (m1, Inl a)
         | (m1, Return joined second) \<Rightarrow> (m1, Inr (joined, second))
         | (m1, Continue res) \<Rightarrow> Join_after w res m1
         | (m1, Break res) \<Rightarrow> Join_after w res m1)"

subsection \<open>NodeDiscovery\<close>

definition NodeDiscovery :: "world \<Rightarrow> Mesh \<Rightarrow> meshv1_Node \<Rightarrow> meshv1_Node \<Rightarrow> Mesh \<times> (abort + unit)" where
  "NodeDiscovery w m toNode newNode =
     (case initClient w m toNode of
        (m1, Inl a) \<Rightarrow> (m1, Inl a)
      | (m1, Inr (Some err)) \<Rightarrow>
          (logw ''discovery-routine'' WarnLevel
             ''Could not connect to client - skip Node Discover Request'' m1, Inr ())
      | (m1, Inr None) \<Rightarrow>
          (case clients m1 (GetId w toNode) of
             None \<Rightarrow> (m1, Inl NilDereference)
           | Some c \<Rightarrow>
               (case NodeDiscovery_rpc w m1 (client c)
                       \<lparr>NewNode = newNode,
                        IAmNode = \<lparr>meshv1_Name = Config_Name (setupConfig m1),
                                   meshv1_Target = Config_ListenAddress (setupConfig m1) @ '':'' @
                                     FormatInt (Config_ListenPort (setupConfig m1))\<rparr>\<rparr> of
                  (Some err, m2) \<Rightarrow>
                    (logw ''discovery-routine'' WarnLevel
                       ''Could not start request to client - skip Node Discover Request'' m2,
                     Inr ())
                | (None, m2) \<Rightarrow> (m2, Inr ()))))"

subsection \<open>pushSamples\<close>

definition to_wire :: "data_Sample \<Rightarrow> meshv1_Sample" where
  "to_wire sample =
     \<lparr>meshv1_From = Sample_From sample, meshv1_To = Sample_To sample,
      meshv1_Key = Sample_Key sample, meshv1_Value = Sample_Value sample,
      meshv1_Ts = Sample_Ts sample\<rparr>"

definition pushSamples :: "world \<Rightarrow> Mesh \<Rightarrow> meshv1_Node \<Rightarrow> Mesh \<times> (abort + error option)" where
  "pushSamples w m node =
     (case initClient w m node of
        (m1, Inl a) \<Rightarrow> (m1, Inl a)
      | (m1, Inr (Some err)) \<Rightarrow>
          (logw ''sample-routine'' DebugLevel ''Could not connect to client'' m1, Inr (Some err))
      | (m1, Inr None) \<Rightarrow>
          (let databaseSamples = GetSampleList (database m1)
           in if length databaseSamples = 0
              then (logw ''sample-routine'' DebugLevel
                      ''No samples found for push - will not push'' m1, Inr None)
              else
                (let samples = map to_wire (GetSampleList (database m1))
                 in case clients m1 (GetId w node) of
                      None \<Rightarrow> (m1, Inl NilDereference)
                    | Some c \<Rightarrow>
                        (case PushSamples_rpc w m1 (client c) samples of
                           (Some err, m2) \<Rightarrow>
                             (logw ''sample-routine'' DebugLevel ''Could not send samples'' m2,
                              Inr (Some err))
                         | (None, m2) \<Rightarrow> (m2, Inr None)))))"

subsection \<open>closeClient\<close>

text \<open>
  \<open>m.clients[GetId(to)]\<close> is the nil pointer when the map has no entry for the id, and
  \<open>.conn\<close> dereferences it. When \<open>Close\<close> fails the function returns with the mutex
  held.
\<close>

definition closeClient :: "world \<Rightarrow> Mesh \<Rightarrow> meshv1_Node \<Rightarrow> Mesh \<times> (abort + error option)" where
  "closeClient w m to =
     (case Lock m of
        None \<Rightarrow> (m, Inl Deadlock)
      | Some m1 \<Rightarrow>
          (case clients m1 (GetId w to) of
             None \<Rightarrow> (m1, Inl NilDereference)
           | Some c \<Rightarrow>
               (case Close_call w m1 (conn c) of
                  (Some err, m2) \<Rightarrow> (m2, Inr (Some err))
                | (None, m2) \<Rightarrow>
                    (Unlock (m2\<lparr>clients := (clients m2)(GetId w to := None)\<rparr>), Inr None))))"

subsection \<open>Rtt\<close>

text \<open>
  \<open>Time.Sub\<close> on two readings of the monotonic clock: the difference, saturated to
  the range of a \<open>Duration\<close> (a signed 64-bit count of nanoseconds).
\<close>

definition maxDuration :: int where
  "maxDuration = 2 ^ 63 - 1"

definition minDuration :: int where
  "minDuration = - (2 ^ 63)"

definition Sub :: "Time \<Rightarrow> Time \<Rightarrow> int" where
  "Sub t u =
     (let d = Time_mono t - Time_mono u
      in if d > maxDuration then maxDuration
         else if d < minDuration then minDuration
         else d)"

text \<open>
  \<open>defer conn.Close()\<close> stands before the test of the error of \<open>grpc.Dial\<close>: when the
  dial fails, \<open>conn\<close> is nil and the deferred \<open>Close\<close> dereferences it on the way out.
  On every later way out the deferred \<open>Close\<close> runs on the connection and its error
  is dropped. The second test of \<open>err\<close>, after \<open>NewMeshServiceClient\<close>, reads the
  error of the dial again, which is nil there.
\<close>

definition Rtt :: "world \<Rightarrow> Mesh \<Rightarrow> Mesh \<times> (abort + unit)" where
  "Rtt w m =
     (let m1 = logw ''rtt'' DebugLevel ''Starting RTT measurement'' m;
          nodes = GetRandomNodeListByState (database m1) (NODE_OK w) 1 (rand w (ticks m1))
      in case nodes of
           [] \<Rightarrow> (logw ''rtt'' DebugLevel ''No Node suitable for RTT measurement'' m1, Inr ())
         | node # _ \<Rightarrow>
             (let m2 = logw ''rtt'' DebugLevel ''Node selected'' m1;
                  m3 = (if Config_DebugGrpc (setupConfig m2) then ReplaceGrpcLoggerV2 m2 else m2);
                  (opts, m4) =
                    (if \<not> LoadClientTLSCredentials w (Config_CaCertPath (setupConfig m3))
                            (Config_CaCert (setupConfig m3))
                     then ([WithTransportCredentials_insecure],
                           logw ''rtt'' DebugLevel
                             ''Cannot load TLS credentials - starting insecure connection'' m3)
                     else ([WithTransportCredentials_tls], m3));
                  opts' = opts @ [WithBlock];
                  (rttStartH, m5) = Now w m4
              in case Dial_call w m5 (Node_Target node) opts' of
                   (None, m6) \<Rightarrow> (logw ''rtt'' DebugLevel ''Dial error'' m6, Inl NilDereference)
                 | (Some cc, m6) \<Rightarrow>
                     (let c = NewMeshServiceClient cc;
                          (rttStart, m7) = Now w m6;
                          (err, m8) = Rtt_rpc w m7 c;
                          (rttEnd, m9) = Now w m8
                      in if err \<noteq> None
                         then (snd (Close_call w (logw ''rtt'' DebugLevel ''RTT failed'' m9) cc),
                               Inr ())
                         else
                           (let m10 = logw ''rtt'' DebugLevel ''RTT succeeded'' m9;
                                rttH = Sub rttEnd rttStartH;
                                rtt = Sub rttEnd rttStart;
                                m11 = m10\<lparr>metrics := metrics m10 @
                                        [(SampleName w (RTT_TOTAL w), Node_Name node, rttH)]\<rparr>;
                                m12 = m11\<lparr>metrics := metrics m11 @
                                        [(SampleName w (RTT_REQUEST w), Node_Name node, rtt)]\<rparr>;
                                (ts1, m13) = Now w m12;
                                m14 = m13\<lparr>database := SetSample w (database m13)
                                        \<lparr>Sample_Id = 0,
                                         Sample_From = Config_Name (setupConfig m13),
                                         Sample_To = Node_Name node,
                                         Sample_Key = RTT_TOTAL w,
                                         Sample_Value = FormatInt rttH,
                                         Sample_Ts = Time_Unix ts1\<rparr>\<rparr>;
                                (ts2, m15) = Now w m14;
                                m16 = m15\<lparr>database := SetSample w (database m15)
                                        \<lparr>Sample_Id = 0,
                                         Sample_From = Config_Name (setupConfig m15),
                                         Sample_To = Node_Name node,
                                         Sample_Key = RTT_REQUEST w,
                                         Sample_Value = FormatInt rtt,
                                         Sample_Ts = Time_Unix ts2\<rparr>\<rparr>
                            in (snd (Close_call w m16 cc), Inr ())))))"

text \<open>
  The transport credentials that \<open>initClient\<close> and \<open>Rtt\<close> pass to \<open>grpc.Dial\<close>: those of
  the credential loader, or the insecure ones when the loader fails.
\<close>

definition credentials_option :: "world \<Rightarrow> SetupConfig \<Rightarrow> DialOption" where
  "credentials_option w cfg =
     (if LoadClientTLSCredentials w (Config_CaCertPath cfg) (Config_CaCert cfg)
      then WithTransportCredentials_tls else WithTransportCredentials_insecure)"

subsection \<open>What one candidate of Join does\<close>

text \<open>
  The outcome of the connection and of the JoinMesh request for one candidate, from
  the state in which the loop reaches it: the connection fails, the request fails, or
  the request returns a response.
\<close>

datatype attempt =
  ConnectionFailure
  | RpcFailure
  | Response JoinMeshResponse
  | Crashed abort

definition try_candidate :: "world \<Rightarrow> Mesh \<Rightarrow> string \<Rightarrow> attempt" where
  "try_candidate w m target =
     (let node = \<lparr>meshv1_Name = '''', meshv1_Target = target\<rparr>
      in case initClient w m node of
           (m1, Inl a) \<Rightarrow> Crashed a
         | (m1, Inr (Some err)) \<Rightarrow> ConnectionFailure
         | (m1, Inr None) \<Rightarrow>
             (case clients m1 (GetId w node) of
                None \<Rightarrow> Crashed NilDereference
              | Some c \<Rightarrow>
                  (case JoinMesh w m1 (client c)
                          \<lparr>meshv1_Name = Config_Name (setupConfig m1),
                           meshv1_Target = Config_JoinAddress (setupConfig m1)\<rparr> of
                     (None, m2) \<Rightarrow> RpcFailure
                   | (Some r, m2) \<Rightarrow> Response r)))"

definition fails :: "attempt \<Rightarrow> bool" where
  "fails a = (a = ConnectionFailure \<or> a = RpcFailure)"

text \<open>
  The state after the loop body ran on each of the candidates \<open>cs\<close>, in their order,
  the first of them at position \<open>index\<close> of \<open>targets\<close>; and whether each of them
  failed in the state in which the loop reached it.
\<close>

fun Join_state :: "world \<Rightarrow> string list \<Rightarrow> nat \<Rightarrow> string list \<Rightarrow> Mesh \<Rightarrow> Mesh" where
  "Join_state w targets index [] m = m"
| "Join_state w targets index (t # cs) m =
     Join_state w targets (Suc index) cs (fst (Join_body w targets index t None m))"

fun all_fail :: "world \<Rightarrow> string list \<Rightarrow> nat \<Rightarrow> string list \<Rightarrow> Mesh \<Rightarrow> bool" where
  "all_fail w targets index [] m = True"
| "all_fail w targets index (t # cs) m =
     (fails (try_candidate w m t) \<and>
      all_fail w targets (Suc index) cs (fst (Join_body w targets index t None m)))"

text \<open>The first line of \<open>Join\<close>: the state in which the loop starts.\<close>

definition Join_start :: "Mesh \<Rightarrow> Mesh" where
  "Join_start m = logw ''join-routine'' DebugLevel ''Starting'' m"

subsection \<open>The network events of a run in which every candidate fails\<close>

text \<open>
  Following the spec's words (section 4.3, steps 1 to 4), not the code: the candidates
  are visited in the order of the list; for each of them a connection is obtained, the
  cached one for its id or a new one by a dial, and on a connection the JoinMesh request
  with the local name and join address is sent. \<open>candidate_events\<close> lists the network
  events of one candidate whose connection or request fails, \<open>candidate_clients\<close> is
  the connection cache after it, and \<open>expected_events\<close> lists the events of all
  candidates, from \<open>n\<close> earlier events on.
\<close>

definition candidate_events :: "world \<Rightarrow> SetupConfig \<Rightarrow> (32 word \<rightharpoonup> MeshClient) \<Rightarrow> nat \<Rightarrow> string \<Rightarrow> event list" where
  "candidate_events w cfg cl n t =
     (let opts = [credentials_option w cfg, WithUnaryInterceptor_timeout];
          req = JoinMeshRequest \<lparr>meshv1_Name = Config_Name cfg,
                                 meshv1_Target = Config_JoinAddress cfg\<rparr>
      in case cl (Hash w t) of
           Some c \<Rightarrow> (case client c of NewMeshServiceClient cc \<Rightarrow> [Call cc req])
         | None \<Rightarrow>
             if grpc_Dial w n t opts
             then [Dial t opts, Call \<lparr>Conn_id = n, Conn_target = t\<rparr> req]
             else [Dial t opts])"

definition candidate_clients :: "world \<Rightarrow> SetupConfig \<Rightarrow> (32 word \<rightharpoonup> MeshClient) \<Rightarrow> nat \<Rightarrow> string \<Rightarrow> (32 word \<rightharpoonup> MeshClient)" where
  "candidate_clients w cfg cl n t =
     (let opts = [credentials_option w cfg, WithUnaryInterceptor_timeout]
      in case cl (Hash w t) of
           Some c \<Rightarrow> cl
         | None \<Rightarrow>
             if grpc_Dial w n t opts
             then cl(Hash w t \<mapsto>
                    \<lparr>conn = \<lparr>Conn_id = n, Conn_target = t\<rparr>,
                     client = NewMeshServiceClient \<lparr>Conn_id = n, Conn_target = t\<rparr>\<rparr>)
             else cl)"

fun expected_events :: "world \<Rightarrow> SetupConfig \<Rightarrow> (32 word \<rightharpoonup> MeshClient) \<Rightarrow> nat \<Rightarrow> string list \<Rightarrow> event list" where
  "expected_events w cfg cl n [] = []"
| "expected_events w cfg cl n (t # ts) =
     candidate_events w cfg cl n t @
     expected_events w cfg (candidate_clients w cfg cl n t)
       (n + length (candidate_events w cfg cl n t)) ts"

subsection \<open>Example worlds\<close>

definition example_Hash :: "string \<Rightarrow> 32 word" where
  "example_Hash s = foldl (\<lambda>h c. h * 31 + of_nat (of_char c)) 7 s"

definition example_world :: "(string \<Rightarrow> bool) \<Rightarrow> (string \<Rightarrow> JoinMeshResponse option) \<Rightarrow> bool \<Rightarrow> world" where
  "example_world reachable answer ok =
     \<lparr>Hash = example_Hash, NODE_OK = 1, RTT_TOTAL = 1, RTT_REQUEST = 2,
      SampleName = (\<lambda>k. if k = 1 then ''rtt_total'' else ''rtt_request''),
      LoadClientTLSCredentials = (\<lambda>path cert. False),
      grpc_Dial = (\<lambda>n target opts. reachable target),
      rpc_JoinMesh = (\<lambda>n cc req. answer (Conn_target cc)),
      rpc_NodeDiscovery = (\<lambda>n cc req. ok),
      rpc_PushSamples = (\<lambda>n cc samples. ok),
      rpc_Rtt = (\<lambda>n cc. ok),
      conn_Close = (\<lambda>n cc. ok),
      time_Now = (\<lambda>n. \<lparr>Time_mono = 1000 * int n + 5, Time_Unix = 1700000000\<rparr>),
      rand = (\<lambda>n. 0)\<rparr>"

definition example_response :: "bool \<Rightarrow> JoinMeshResponse" where
  "example_response unique =
     \<lparr>NameUnique = unique, MyName = ''peer'',
      Nodes = [\<lparr>meshv1_Name = ''A'', meshv1_Target = ''a:8081''\<rparr>,
               \<lparr>meshv1_Name = ''B'', meshv1_Target = ''b:8081''\<rparr>,
               \<lparr>meshv1_Name = ''self'', meshv1_Target = ''self:8081''\<rparr>]\<rparr>"

definition example_peer :: meshv1_Node where
  "example_peer = \<lparr>meshv1_Name = ''peer'', meshv1_Target = ''peer:8081''\<rparr>"

definition example_store :: "int \<Rightarrow> Database" where
  "example_store state =
     \<lparr>node_table =
        [(example_Hash ''peer:8081'',
          \<lparr>Node_Id = example_Hash ''peer:8081'', Node_Name = ''peer'',
           Node_Target = ''peer:8081'', Node_State = state, Node_StateChangeTs = 0\<rparr>)],
      sample_table = []\<rparr>"

definition example_mesh :: Mesh where
  "example_mesh =
     \<lparr>setupConfig =
        \<lparr>Config_Name = ''self'', Config_JoinAddress = ''self:8081'',
         Config_ListenAddress = ''0.0.0.0'', Config_ListenPort = 8081,
         Config_DebugGrpc = False, Config_CaCertPath = '''', Config_CaCert = ''''\<rparr>,
      clients = Map.empty, mu = False,
      database = \<lparr>node_table = [], sample_table = []\<rparr>,
      metrics = [], logger = [], trace = [], ticks = 0, grpcLogger = False\<rparr>"

section \<open>Properties\<close>

subsection \<open>initClient, field by field\<close>

lemmas initClient_unfold = initClient_def Let_def logw_def ReplaceGrpcLoggerV2_def
        Dial_call_def Lock_def Unlock_def credentials_option_def

lemma initClient_snd:
  "snd (initClient w m n) =
     (if clients m (GetId w n) \<noteq> None then Inr None
      else if \<not> grpc_Dial w (length (trace m)) (meshv1_Target n)
                 [credentials_option w (setupConfig m), WithUnaryInterceptor_timeout]
      then Inr (Some DialError)
      else if mu m then Inl Deadlock else Inr None)"
  by (auto simp: initClient_unfold)

lemma initClient_trace:
  "trace (fst (initClient w m n)) =
     (if clients m (GetId w n) \<noteq> None then trace m
      else trace m @ [Dial (meshv1_Target n)
                 [credentials_option w (setupConfig m), WithUnaryInterceptor_timeout]])"
  by (auto simp: initClient_unfold)

lemma initClient_clients:
  "clients (fst (initClient w m n)) =
     (if clients m (GetId w n) = None \<and> snd (initClient w m n) = Inr None
      then (clients m)(GetId w n \<mapsto>
             \<lparr>conn = \<lparr>Conn_id = length (trace m), Conn_target = meshv1_Target n\<rparr>,
              client = NewMeshServiceClient \<lparr>Conn_id = length (trace m), Conn_target = meshv1_Target n\<rparr>\<rparr>)
      else clients m)"
  by (auto simp: initClient_unfold)

lemma initClient_frame:
  "setupConfig (fst (initClient w m n)) = setupConfig m"
  "database (fst (initClient w m n)) = database m"
  "metrics (fst (initClient w m n)) = metrics m"
  "ticks (fst (initClient w m n)) = ticks m"
  "mu (fst (initClient w m n)) = mu m"
  by (auto simp: initClient_unfold)

lemma logw_sel [simp]:
  "setupConfig (logw a b c m) = setupConfig m"
  "clients (logw a b c m) = clients m"
  "mu (logw a b c m) = mu m"
  "database (logw a b c m) = database m"
  "metrics (logw a b c m) = metrics m"
  "trace (logw a b c m) = trace m"
  "ticks (logw a b c m) = ticks m"
  "grpcLogger (logw a b c m) = grpcLogger m"
  "logger (logw a b c m) = logger m @ [(a, b, c)]"
  by (simp_all add: logw_def)

lemma try_candidate_eq:
  "try_candidate w m t =
     (let node = \<lparr>meshv1_Name = '''', meshv1_Target = t\<rparr> in
      case snd (initClient w m node) of
        Inl a \<Rightarrow> Crashed a
      | Inr (Some err) \<Rightarrow> ConnectionFailure
      | Inr None \<Rightarrow>
          (case clients (fst (initClient w m node)) (GetId w node) of
             None \<Rightarrow> Crashed NilDereference
           | Some c \<Rightarrow>
               (case client c of NewMeshServiceClient cc \<Rightarrow>
                 (case rpc_JoinMesh w (length (trace (fst (initClient w m node)))) cc
                         \<lparr>meshv1_Name = Config_Name (setupConfig m),
                          meshv1_Target = Config_JoinAddress (setupConfig m)\<rparr> of
                    None \<Rightarrow> RpcFailure
                  | Some r \<Rightarrow> Response r))))"
proof -
  obtain m1 r where ic: "initClient w m \<lparr>meshv1_Name = '''', meshv1_Target = t\<rparr> = (m1, r)"
    by (cases "initClient w m \<lparr>meshv1_Name = '''', meshv1_Target = t\<rparr>")
  have cfg: "setupConfig m1 = setupConfig m"
    using initClient_frame(1) [of w m "\<lparr>meshv1_Name = '''', meshv1_Target = t\<rparr>"] ic by simp
  show ?thesis
    by (simp add: try_candidate_def Let_def JoinMesh_def ic cfg
        split: sum.split option.split MeshServiceClient.split)
qed

lemma try_candidate_logw [simp]:
  "try_candidate w (logw a b c m) t = try_candidate w m t"
  by (simp add: try_candidate_eq Let_def initClient_snd initClient_clients initClient_trace
      split: sum.split option.split MeshServiceClient.split)

lemma initClient_result_cached:
  assumes "initClient w m n = (m', Inr None)"
  shows "clients m' (GetId w n) \<noteq> None"
proof -
  from assms have s: "snd (initClient w m n) = Inr None" and f: "fst (initClient w m n) = m'"
    by simp_all
  from initClient_clients [of w m n] s f show ?thesis
    by (auto split: if_splits)
qed

text \<open>The loop body, by the outcome of the candidate.\<close>

lemma Join_body_frame:
  "setupConfig (fst (Join_body w targets index t res m)) = setupConfig m"
  "metrics (fst (Join_body w targets index t res m)) = metrics m"
  "ticks (fst (Join_body w targets index t res m)) = ticks m"
  "mu (fst (Join_body w targets index t res m)) = mu m"
proof -
  let ?n = "\<lparr>meshv1_Name = '''', meshv1_Target = t\<rparr>"
  let ?m1 = "logw ''join-routine'' DebugLevel ''Index %+v Targets: %+v'' m"
  obtain m2 r where ic: "initClient w ?m1 ?n = (m2, r)"
    by (cases "initClient w ?m1 ?n")
  from initClient_frame [of w ?m1 ?n] ic
  have fr: "setupConfig m2 = setupConfig m" "metrics m2 = metrics m" "ticks m2 = ticks m"
    "mu m2 = mu m"
    by simp_all
  show "setupConfig (fst (Join_body w targets index t res m)) = setupConfig m"
    "metrics (fst (Join_body w targets index t res m)) = metrics m"
    "ticks (fst (Join_body w targets index t res m)) = ticks m"
    "mu (fst (Join_body w targets index t res m)) = mu m"
    by (simp_all add: Join_body_def Let_def ic fr JoinMesh_def
        split: sum.split option.split MeshServiceClient.split prod.split)
qed

lemma Join_body_fails:
  assumes "fails (try_candidate w m t)"
  shows "snd (Join_body w targets index t None m) =
           (if int index \<noteq> int (length targets) - 1 then Continue None else Return False True)"
    and "database (fst (Join_body w targets index t None m)) = database m"
proof -
  let ?n = "\<lparr>meshv1_Name = '''', meshv1_Target = t\<rparr>"
  let ?m1 = "logw ''join-routine'' DebugLevel ''Index %+v Targets: %+v'' m"
  obtain m2 r where ic: "initClient w ?m1 ?n = (m2, r)"
    by (cases "initClient w ?m1 ?n")
  from assms have f: "fails (try_candidate w ?m1 t)" by simp
  from initClient_frame(2) [of w ?m1 ?n] ic have db: "database m2 = database m" by simp
  from f ic show "snd (Join_body w targets index t None m) =
           (if int index \<noteq> int (length targets) - 1 then Continue None else Return False True)"
    by (auto simp: Join_body_def try_candidate_def fails_def Let_def
        split: sum.splits option.splits prod.splits)
  from f ic db show "database (fst (Join_body w targets index t None m)) = database m"
    by (auto simp: Join_body_def try_candidate_def fails_def Let_def JoinMesh_def
        split: sum.splits option.splits prod.splits MeshServiceClient.splits)
qed

lemma Join_body_conflict:
  assumes "try_candidate w m t = Response r" and "\<not> NameUnique r"
  shows "snd (Join_body w targets index t res m) = Return True False"
    and "Join_body w targets index t res m = Join_body w targets' index' t res' m"
proof -
  let ?n = "\<lparr>meshv1_Name = '''', meshv1_Target = t\<rparr>"
  let ?m1 = "logw ''join-routine'' DebugLevel ''Index %+v Targets: %+v'' m"
  obtain m2 e where ic: "initClient w ?m1 ?n = (m2, e)"
    by (cases "initClient w ?m1 ?n")
  from assms have f: "try_candidate w ?m1 t = Response r" by simp
  from f ic assms(2) show "snd (Join_body w targets index t res m) = Return True False"
    by (auto simp: Join_body_def try_candidate_def Let_def
        split: sum.splits option.splits prod.splits)
  from f ic assms(2) show "Join_body w targets index t res m = Join_body w targets' index' t res' m"
    by (auto simp: Join_body_def try_candidate_def Let_def
        split: sum.splits option.splits prod.splits)
qed

lemma Join_body_joined:
  assumes "try_candidate w m t = Response r" and "NameUnique r"
  shows "snd (Join_body w targets index t res m) = Break (Some r)"
    and "database (fst (Join_body w targets index t res m)) =
           SetNode (database m) (Convert w \<lparr>meshv1_Name = MyName r, meshv1_Target = t\<rparr> (NODE_OK w))"
proof -
  let ?n = "\<lparr>meshv1_Name = '''', meshv1_Target = t\<rparr>"
  let ?m1 = "logw ''join-routine'' DebugLevel ''Index %+v Targets: %+v'' m"
  obtain m2 e where ic: "initClient w ?m1 ?n = (m2, e)"
    by (cases "initClient w ?m1 ?n")
  from assms have f: "try_candidate w ?m1 t = Response r" by simp
  from initClient_frame(2) [of w ?m1 ?n] ic have db: "database m2 = database m" by simp
  from f ic assms(2) show "snd (Join_body w targets index t res m) = Break (Some r)"
    by (auto simp: Join_body_def try_candidate_def Let_def
        split: sum.splits option.splits prod.splits)
  from f ic assms(2) db show "database (fst (Join_body w targets index t res m)) =
           SetNode (database m) (Convert w \<lparr>meshv1_Name = MyName r, meshv1_Target = t\<rparr> (NODE_OK w))"
    by (auto simp: Join_body_def try_candidate_def Let_def JoinMesh_def
        split: sum.splits option.splits prod.splits MeshServiceClient.splits)
qed

lemma Join_body_targets:
  assumes "int index \<noteq> int (length targets) - 1" and "int index \<noteq> int (length targets') - 1"
  shows "Join_body w targets index t res m = Join_body w targets' index t res m"
  using assms
  by (simp add: Join_body_def Let_def split: prod.split sum.split option.split)

lemma Join_loop_all_fail:
  assumes "all_fail w targets index cs m" and "index + length cs = length targets" and "cs \<noteq> []"
  shows "Join_loop w targets index cs None m = (Join_state w targets index cs m, Return False True)"
  using assms
proof (induction cs arbitrary: index m)
  case Nil
  then show ?case by simp
next
  case (Cons t cs)
  from Cons.prems(1) have f: "fails (try_candidate w m t)"
    and rest: "all_fail w targets (Suc index) cs (fst (Join_body w targets index t None m))"
    by simp_all
  show ?case
  proof (cases "cs = []")
    case True
    with Cons.prems(2) have "int index = int (length targets) - 1" by simp
    with Join_body_fails(1) [OF f, of targets index]
    have "snd (Join_body w targets index t None m) = Return False True" by simp
    with True show ?thesis by (auto split: prod.split)
  next
    case False
    with Cons.prems(2) have "int index \<noteq> int (length targets) - 1" by (cases cs) auto
    with Join_body_fails(1) [OF f, of targets index]
    have s: "snd (Join_body w targets index t None m) = Continue None" by simp
    from Cons.prems(2) have "Suc index + length cs = length targets" by simp
    from Cons.IH [OF rest this False] s show ?thesis
      by (auto split: prod.split)
  qed
qed

lemma Join_loop_prefix:
  assumes "all_fail w targets index pre m" and "index + length pre < length targets"
  shows "Join_loop w targets index (pre @ rest) None m =
           Join_loop w targets (index + length pre) rest None (Join_state w targets index pre m)"
  using assms
proof (induction pre arbitrary: index m)
  case Nil
  then show ?case by simp
next
  case (Cons t pre)
  from Cons.prems(1) have f: "fails (try_candidate w m t)"
    and rest: "all_fail w targets (Suc index) pre (fst (Join_body w targets index t None m))"
    by simp_all
  from Cons.prems(2) have "int index \<noteq> int (length targets) - 1" by auto
  with Join_body_fails(1) [OF f, of targets index]
  have s: "snd (Join_body w targets index t None m) = Continue None" by simp
  from Cons.prems(2) have "Suc index + length pre < length targets" by simp
  from Cons.IH [OF rest this] s show ?case
    by (auto split: prod.split)
qed

lemma Join_state_targets:
  assumes "index + length pre < length targets" and "index + length pre < length targets'"
  shows "Join_state w targets index pre m = Join_state w targets' index pre m"
    and "all_fail w targets index pre m = all_fail w targets' index pre m"
  using assms
proof (induction pre arbitrary: index m)
  case Nil
  { case 1 show ?case by simp }
  { case 2 show ?case by simp }
next
  case (Cons t pre)
  { case 1
    then have b: "Join_body w targets index t None m = Join_body w targets' index t None m"
      by (intro Join_body_targets) auto
    from 1 Cons.IH(1) [of "Suc index"] b show ?case by simp }
  { case 2
    then have b: "Join_body w targets index t None m = Join_body w targets' index t None m"
      by (intro Join_body_targets) auto
    from 2 Cons.IH(2) [of "Suc index"] b show ?case by simp }
qed



lemma Join_body_res:
  "fst (Join_body w targets index t res m) = fst (Join_body w targets index t None m)"
  by (simp add: Join_body_def Let_def split: prod.split sum.split option.split)

lemma Join_body_no_abort:
  assumes "\<not> mu m"
  shows "snd (Join_body w targets index t res m) \<noteq> Abort a"
proof -
  let ?n = "\<lparr>meshv1_Name = '''', meshv1_Target = t\<rparr>"
  let ?m1 = "logw ''join-routine'' DebugLevel ''Index %+v Targets: %+v'' m"
  obtain m2 e where ic: "initClient w ?m1 ?n = (m2, e)"
    by (cases "initClient w ?m1 ?n")
  from initClient_snd [of w ?m1 ?n] ic assms have e: "e = Inr None \<or> e = Inr (Some DialError)"
    by (auto split: if_splits)
  show ?thesis
  proof (cases "e = Inr None")
    case True
    with ic have "clients m2 (GetId w ?n) \<noteq> None"
      by (simp add: initClient_result_cached)
    with ic True show ?thesis
      by (auto simp: Join_body_def Let_def split: prod.splits option.splits)
  next
    case False
    with e ic show ?thesis
      by (auto simp: Join_body_def Let_def)
  qed
qed

lemma Join_body_last:
  assumes "int index = int (length targets) - 1"
  shows "snd (Join_body w targets index t res m) \<noteq> Continue res'"
  using assms unfolding Join_body_def Let_def
  by (auto split: if_splits prod.splits option.splits sum.splits)

lemma Join_body_Break:
  "snd (Join_body w targets index t res m) = Break res' \<Longrightarrow> res' \<noteq> None"
  unfolding Join_body_def Let_def
  by (auto split: if_splits prod.splits option.splits sum.splits)

lemma Join_loop_Cons:
  "Join_loop w targets index (t # rest) res m =
     (case snd (Join_body w targets index t res m) of
        Continue res' \<Rightarrow> Join_loop w targets (Suc index) rest res' (fst (Join_body w targets index t res m))
      | s \<Rightarrow> (fst (Join_body w targets index t res m), s))"
  by (simp split: prod.split step.split)

lemma Join_loop_total:
  assumes "\<not> mu m" and "index + length rest = length targets" and "rest \<noteq> []"
  shows "(\<exists>j f. snd (Join_loop w targets index rest res m) = Return j f) \<or>
         (\<exists>r. snd (Join_loop w targets index rest res m) = Break (Some r))"
  using assms
proof (induction rest arbitrary: index res m)
  case Nil
  then show ?case by simp
next
  case (Cons t rest)
  let ?b = "Join_body w targets index t res m"
  from Cons.prems(1) have m1: "\<not> mu (fst ?b)" by (simp add: Join_body_frame)
  show ?case
  proof (cases "snd ?b")
    case (Continue res1)
    have "rest \<noteq> []"
    proof
      assume "rest = []"
      with Cons.prems(2) have "int index = int (length targets) - 1" by simp
      from Join_body_last [OF this] Continue show False by blast
    qed
    moreover from Cons.prems(2) have "Suc index + length rest = length targets" by simp
    ultimately show ?thesis using Cons.IH [OF m1, of "Suc index" res1] Continue
      by (simp add: Join_loop_Cons del: Join_loop.simps)
  next
    case (Break res1)
    then have "res1 \<noteq> None" by (rule Join_body_Break)
    with Break show ?thesis
      by (auto simp add: Join_loop_Cons simp del: Join_loop.simps)
  next
    case (Return j f)
    then show ?thesis by (simp add: Join_loop_Cons del: Join_loop.simps)
  next
    case (Abort a)
    with Join_body_no_abort [OF Cons.prems(1)] show ?thesis by blast
  qed
qed

lemma Join_returns:
  assumes "\<not> mu m" and "targets \<noteq> []"
  shows "\<exists>m' joined second. Join w m targets = (m', Inr (joined, second))"
proof -
  let ?m0 = "logw ''join-routine'' DebugLevel ''Starting'' m"
  from assms(1) have "\<not> mu ?m0" by simp
  from Join_loop_total [OF this, of 0 targets targets w None] assms(2)
  show ?thesis
    by (cases "Join_loop w targets 0 targets None ?m0")
       (auto simp: Join_def Let_def Join_after_def)
qed

lemmas eval_defs = example_world_def example_mesh_def Join_start_def try_candidate_def fails_def
  Join_body_def initClient_def Let_def logw_def ReplaceGrpcLoggerV2_def Dial_call_def Lock_def
  Unlock_def JoinMesh_def GetId_def

lemma Join_empty: "Join w m [] = (Join_start m, Inl NilDereference)"
  by (simp add: Join_def Join_start_def Join_after_def)

text \<open>
  Claim C10. With an empty candidate list the loop is skipped and the code after it
  dereferences the nil response: \<open>Join\<close> does not return a pair. A call that returns a
  pair has a candidate list that is not empty; and when the list is not empty and the
  mutex is free, \<open>Join\<close> returns a pair.
\<close>

theorem Join_empty_candidates:
  "Join w m [] = (Join_start m, Inl NilDereference) \<and>
   ((\<exists>m' joined second. Join w m targets = (m', Inr (joined, second))) \<longrightarrow> targets \<noteq> []) \<and>
   (\<not> mu m \<and> targets \<noteq> [] \<longrightarrow> (\<exists>m' joined second. Join w m targets = (m', Inr (joined, second))))"
  using Join_returns [of m targets w] by (auto simp: Join_empty)

theorem Join_empty_candidates_witness:
  "Join (example_world (\<lambda>t. True) (\<lambda>t. None) True) example_mesh [] =
     (Join_start example_mesh, Inl NilDereference) \<and>
   \<not> mu example_mesh \<and> [''bad1''] \<noteq> [] \<and>
   (\<exists>m' joined second.
      Join (example_world (\<lambda>t. True) (\<lambda>t. None) True) example_mesh [''bad1''] =
        (m', Inr (joined, second)))"
  using Join_empty_candidates [of "example_world (\<lambda>t. True) (\<lambda>t. None) True" example_mesh "[''bad1'']"]
  by (simp add: example_mesh_def)

lemma Join_body_fails_events:
  assumes "fails (try_candidate w m t)"
  shows "trace (fst (Join_body w targets index t None m)) =
           trace m @ candidate_events w (setupConfig m) (clients m) (length (trace m)) t"
    and "clients (fst (Join_body w targets index t None m)) =
           candidate_clients w (setupConfig m) (clients m) (length (trace m)) t"
proof -
  let ?n = "\<lparr>meshv1_Name = '''', meshv1_Target = t\<rparr>"
  let ?m1 = "logw ''join-routine'' DebugLevel ''Index %+v Targets: %+v'' m"
  obtain m2 e where ic: "initClient w ?m1 ?n = (m2, e)"
    by (cases "initClient w ?m1 ?n")
  from assms have f: "fails (try_candidate w ?m1 t)" by simp
  from initClient_snd [of w ?m1 ?n] ic
  have sn: "e = (if clients m (Hash w t) \<noteq> None then Inr None
      else if \<not> grpc_Dial w (length (trace m)) t
                 [credentials_option w (setupConfig m), WithUnaryInterceptor_timeout]
      then Inr (Some DialError)
      else if mu m then Inl Deadlock else Inr None)"
    by (simp add: GetId_def)
  from initClient_trace [of w ?m1 ?n] ic
  have tr: "trace m2 = (if clients m (Hash w t) \<noteq> None then trace m
      else trace m @ [Dial t [credentials_option w (setupConfig m), WithUnaryInterceptor_timeout]])"
    by (simp add: GetId_def)
  from initClient_clients [of w ?m1 ?n] ic
  have cl: "clients m2 = (if clients m (Hash w t) = None \<and> e = Inr None
      then (clients m)(Hash w t \<mapsto>
             \<lparr>conn = \<lparr>Conn_id = length (trace m), Conn_target = t\<rparr>,
              client = NewMeshServiceClient \<lparr>Conn_id = length (trace m), Conn_target = t\<rparr>\<rparr>)
      else clients m)"
    by (simp add: GetId_def)
  from initClient_frame(1) [of w ?m1 ?n] ic have cfg: "setupConfig m2 = setupConfig m" by simp
  show "trace (fst (Join_body w targets index t None m)) =
           trace m @ candidate_events w (setupConfig m) (clients m) (length (trace m)) t"
  proof (cases e)
    case (Inl a)
    with f ic show ?thesis by (simp add: try_candidate_def fails_def)
  next
    case (Inr err)
    show ?thesis
    proof (cases err)
      case (Some x)
      with Inr sn have "clients m (Hash w t) = None"
        and "\<not> grpc_Dial w (length (trace m)) t
                 [credentials_option w (setupConfig m), WithUnaryInterceptor_timeout]"
        by (auto split: if_splits)
      with ic Inr Some tr show ?thesis
        by (simp add: Join_body_def Let_def candidate_events_def)
    next
      case None
      with ic Inr have "clients m2 (GetId w ?n) \<noteq> None" by (simp add: initClient_result_cached)
      then obtain c where c: "clients m2 (Hash w t) = Some c" by (auto simp: GetId_def)
      obtain cc where cc: "client c = NewMeshServiceClient cc" by (cases "client c")
      from f ic Inr None c cc have rf: "rpc_JoinMesh w (length (trace m2)) cc
            \<lparr>meshv1_Name = Config_Name (setupConfig m), meshv1_Target = Config_JoinAddress (setupConfig m)\<rparr> = None"
        by (auto simp: try_candidate_def fails_def JoinMesh_def GetId_def cfg split: option.splits)
      have b: "trace (fst (Join_body w targets index t None m)) =
          trace m2 @ [Call cc (JoinMeshRequest \<lparr>meshv1_Name = Config_Name (setupConfig m),
                 meshv1_Target = Config_JoinAddress (setupConfig m)\<rparr>)]"
        using ic Inr None c cc rf
        by (simp add: Join_body_def Let_def JoinMesh_def GetId_def cfg)
      show ?thesis
      proof (cases "clients m (Hash w t)")
        case (Some c0)
        with cl c have "c0 = c" by simp
        with Some b tr cc show ?thesis by (simp add: candidate_events_def)
      next
        case N: None
        with sn Inr None have d: "grpc_Dial w (length (trace m)) t
                 [credentials_option w (setupConfig m), WithUnaryInterceptor_timeout]"
          by (auto split: if_splits)
        from N cl Inr None c cc have "cc = \<lparr>Conn_id = length (trace m), Conn_target = t\<rparr>"
          by auto
        with N d b tr show ?thesis by (simp add: candidate_events_def)
      qed
    qed
  qed
  show "clients (fst (Join_body w targets index t None m)) =
           candidate_clients w (setupConfig m) (clients m) (length (trace m)) t"
  proof -
    from f ic have "clients (fst (Join_body w targets index t None m)) = clients m2"
      by (auto simp: Join_body_def try_candidate_def fails_def Let_def JoinMesh_def
          split: sum.splits option.splits prod.splits MeshServiceClient.splits)
    moreover from f ic have "\<exists>x. e = Inr x"
      by (auto simp: try_candidate_def fails_def split: sum.splits)
    ultimately show ?thesis using cl sn
      by (auto simp: candidate_clients_def split: if_splits option.splits)
  qed
qed

lemma Join_state_trace:
  "all_fail w targets index cs m \<Longrightarrow>
     trace (Join_state w targets index cs m) =
       trace m @ expected_events w (setupConfig m) (clients m) (length (trace m)) cs"
proof (induction cs arbitrary: index m)
  case Nil
  show ?case by simp
next
  case (Cons t cs)
  let ?b = "fst (Join_body w targets index t None m)"
  from Cons.prems have f: "fails (try_candidate w m t)"
    and rest: "all_fail w targets (Suc index) cs ?b"
    by simp_all
  from Cons.IH [OF rest] Join_body_fails_events [OF f, of targets index]
  show ?case by (simp add: Join_body_frame)
qed

lemma candidate_events_nonempty: "candidate_events w cfg cl n t \<noteq> []"
  by (simp add: candidate_events_def Let_def split: option.split MeshServiceClient.split)

lemma expected_events_length: "length ts \<le> length (expected_events w cfg cl n ts)"
proof (induction ts arbitrary: cl n)
  case Nil
  show ?case by simp
next
  case (Cons t ts)
  have "1 \<le> length (candidate_events w cfg cl n t)"
    using candidate_events_nonempty [of w cfg cl n t] by (cases "candidate_events w cfg cl n t") simp_all
  with Cons.IH [of "candidate_clients w cfg cl n t" "n + length (candidate_events w cfg cl n t)"]
  show ?case by simp
qed

text \<open>
  Claim C5. When the candidate list is not empty and every candidate fails (its
  connection or its JoinMesh request), \<open>Join\<close> returns \<open>(false, true)\<close>. The network
  trace it leaves is the trace before the call followed by the events of every
  candidate in the order of the list (\<open>expected_events\<close>: for each candidate a dial,
  unless its connection is cached, and the JoinMesh request when the connection
  succeeds), so that each candidate was tried, at least one event each, and the loop
  moved on after each failure but the last.
\<close>

theorem Join_all_candidates_fail:
  assumes "targets \<noteq> []" and "all_fail w targets 0 targets (Join_start m)"
  shows "Join w m targets = (Join_state w targets 0 targets (Join_start m), Inr (False, True)) \<and>
         trace (fst (Join w m targets)) =
           trace m @ expected_events w (setupConfig m) (clients m) (length (trace m)) targets \<and>
         length targets \<le> length (expected_events w (setupConfig m) (clients m) (length (trace m)) targets)"
proof -
  have j: "Join w m targets = (Join_state w targets 0 targets (Join_start m), Inr (False, True))"
    using Join_loop_all_fail [OF assms(2) _ assms(1)]
    by (simp add: Join_def Join_start_def)
  from Join_state_trace [OF assms(2)]
  have "trace (Join_state w targets 0 targets (Join_start m)) =
           trace m @ expected_events w (setupConfig m) (clients m) (length (trace m)) targets"
    by (simp add: Join_start_def)
  with j show ?thesis by (simp add: expected_events_length)
qed

theorem Join_all_candidates_fail_witness:
  "[''bad1'', ''mute''] \<noteq> [] \<and>
   all_fail (example_world (\<lambda>t. t = ''mute'') (\<lambda>t. None) True) [''bad1'', ''mute''] 0
     [''bad1'', ''mute''] (Join_start example_mesh) \<and>
   snd (Join (example_world (\<lambda>t. t = ''mute'') (\<lambda>t. None) True) example_mesh [''bad1'', ''mute'']) =
     Inr (False, True) \<and>
   trace (fst (Join (example_world (\<lambda>t. t = ''mute'') (\<lambda>t. None) True) example_mesh
                 [''bad1'', ''mute''])) =
     [Dial ''bad1'' [WithTransportCredentials_insecure, WithUnaryInterceptor_timeout],
      Dial ''mute'' [WithTransportCredentials_insecure, WithUnaryInterceptor_timeout],
      Call \<lparr>Conn_id = 1, Conn_target = ''mute''\<rparr>
        (JoinMeshRequest \<lparr>meshv1_Name = ''self'', meshv1_Target = ''self:8081''\<rparr>)]"
proof -
  let ?W = "example_world (\<lambda>t. t = ''mute'') (\<lambda>t. None) True"
  have a: "all_fail ?W [''bad1'', ''mute''] 0 [''bad1'', ''mute''] (Join_start example_mesh)"
    by (simp add: eval_defs)
  have e: "expected_events ?W (setupConfig example_mesh) (clients example_mesh)
             (length (trace example_mesh)) [''bad1'', ''mute''] =
     [Dial ''bad1'' [WithTransportCredentials_insecure, WithUnaryInterceptor_timeout],
      Dial ''mute'' [WithTransportCredentials_insecure, WithUnaryInterceptor_timeout],
      Call \<lparr>Conn_id = 1, Conn_target = ''mute''\<rparr>
        (JoinMeshRequest \<lparr>meshv1_Name = ''self'', meshv1_Target = ''self:8081''\<rparr>)]"
    by (simp add: candidate_events_def candidate_clients_def credentials_option_def
        example_world_def example_mesh_def)
  have th: "Join ?W example_mesh [''bad1'', ''mute''] =
      (Join_state ?W [''bad1'', ''mute''] 0 [''bad1'', ''mute''] (Join_start example_mesh),
       Inr (False, True)) \<and>
    trace (fst (Join ?W example_mesh [''bad1'', ''mute''])) =
      trace example_mesh @ expected_events ?W (setupConfig example_mesh) (clients example_mesh)
        (length (trace example_mesh)) [''bad1'', ''mute''] \<and>
    length [''bad1'', ''mute''] \<le> length (expected_events ?W (setupConfig example_mesh)
        (clients example_mesh) (length (trace example_mesh)) [''bad1'', ''mute''])"
    by (rule Join_all_candidates_fail [OF _ a]) simp
  from th have r: "snd (Join ?W example_mesh [''bad1'', ''mute'']) = Inr (False, True)"
    by simp
  have t0: "trace example_mesh = []" by (simp add: example_mesh_def)
  from th have "trace (fst (Join ?W example_mesh [''bad1'', ''mute''])) =
      trace example_mesh @ expected_events ?W (setupConfig example_mesh) (clients example_mesh)
        (length (trace example_mesh)) [''bad1'', ''mute'']"
    by blast
  with e t0 have t: "trace (fst (Join ?W example_mesh [''bad1'', ''mute''])) =
     [Dial ''bad1'' [WithTransportCredentials_insecure, WithUnaryInterceptor_timeout],
      Dial ''mute'' [WithTransportCredentials_insecure, WithUnaryInterceptor_timeout],
      Call \<lparr>Conn_id = 1, Conn_target = ''mute''\<rparr>
        (JoinMeshRequest \<lparr>meshv1_Name = ''self'', meshv1_Target = ''self:8081''\<rparr>)]"
    by simp
  from a r t show ?thesis by simp
qed

lemma Join_loop_reach:
  assumes "all_fail w (pre @ t # post) 0 pre (Join_start m)"
  shows "Join_loop w (pre @ t # post) 0 (pre @ t # post) None (Join_start m) =
           Join_loop w (pre @ t # post) (length pre) (t # post) None
             (Join_state w (pre @ t # post) 0 pre (Join_start m))"
  using Join_loop_prefix [OF assms, of "t # post"] by simp

lemma Join_joined:
  assumes "all_fail w (pre @ t # post) 0 pre (Join_start m)"
    and "try_candidate w (Join_state w (pre @ t # post) 0 pre (Join_start m)) t = Response r"
    and "NameUnique r"
  shows "Join w m (pre @ t # post) =
           (Join_nodes w (Nodes r)
              (fst (Join_body w (pre @ t # post) (length pre) t None
                      (Join_state w (pre @ t # post) 0 pre (Join_start m)))),
            Inr (True, True))"
  using Join_loop_reach [OF assms(1)] Join_body_joined(1) [OF assms(2,3)]
  by (simp add: Join_def Join_start_def [symmetric] Join_loop_Cons Join_after_def del: Join_loop.simps)

text \<open>
  Claim C4. When the candidates before \<open>t\<close> fail and the JoinMesh request to \<open>t\<close>
  returns a response with \<open>nameUnique = false\<close>, \<open>Join\<close> returns \<open>(true, false)\<close>, and the
  candidates after \<open>t\<close> play no part: the result and the whole state, the network trace
  included, are those of the call on the list that ends with \<open>t\<close>.
\<close>

theorem Join_name_conflict:
  assumes "all_fail w (pre @ t # post) 0 pre (Join_start m)"
    and "try_candidate w (Join_state w (pre @ t # post) 0 pre (Join_start m)) t = Response r"
    and "\<not> NameUnique r"
  shows "snd (Join w m (pre @ t # post)) = Inr (True, False) \<and>
         Join w m (pre @ t # post) = Join w m (pre @ [t])"
proof -
  let ?T = "pre @ t # post" and ?T' = "pre @ [t]"
  have st: "Join_state w ?T 0 pre (Join_start m) = Join_state w ?T' 0 pre (Join_start m)"
    by (rule Join_state_targets(1)) simp_all
  have af: "all_fail w ?T 0 pre (Join_start m) = all_fail w ?T' 0 pre (Join_start m)"
    by (rule Join_state_targets(2)) simp_all
  let ?m1 = "Join_state w ?T 0 pre (Join_start m)"
  have r1: "Join_loop w ?T 0 ?T None (Join_start m) = Join_loop w ?T (length pre) (t # post) None ?m1"
    by (rule Join_loop_reach [OF assms(1)])
  from assms(1) af have "all_fail w ?T' 0 pre (Join_start m)" by simp
  from Join_loop_reach [OF this] st
  have r2: "Join_loop w ?T' 0 ?T' None (Join_start m) = Join_loop w ?T' (length pre) [t] None ?m1"
    by simp
  have b: "Join_body w ?T (length pre) t None ?m1 = Join_body w ?T' (length pre) t None ?m1"
    by (rule Join_body_conflict(2) [OF assms(2,3)])
  have s: "snd (Join_body w ?T (length pre) t None ?m1) = Return True False"
    by (rule Join_body_conflict(1) [OF assms(2,3)])
  from s b have s': "snd (Join_body w ?T' (length pre) t None ?m1) = Return True False" by simp
  have j1: "Join w m ?T = (fst (Join_body w ?T (length pre) t None ?m1), Inr (True, False))"
    using r1 s by (simp add: Join_def Join_start_def [symmetric] Join_loop_Cons del: Join_loop.simps)
  have j2: "Join w m ?T' = (fst (Join_body w ?T' (length pre) t None ?m1), Inr (True, False))"
    using r2 s' by (simp add: Join_def Join_start_def [symmetric] Join_loop_Cons del: Join_loop.simps)
  from j1 j2 b show ?thesis by simp
qed

lemma Join_body_classify:
  assumes "snd (Join_body w targets index t res m) = s"
  shows "(\<exists>res'. s = Continue res') \<Longrightarrow> fails (try_candidate w m t)"
    and "s = Return False second \<Longrightarrow>
           fails (try_candidate w m t) \<and> second \<and> int index = int (length targets) - 1"
proof -
  let ?n = "\<lparr>meshv1_Name = '''', meshv1_Target = t\<rparr>"
  let ?m1 = "logw ''join-routine'' DebugLevel ''Index %+v Targets: %+v'' m"
  obtain m2 e where ic: "initClient w ?m1 ?n = (m2, e)"
    by (cases "initClient w ?m1 ?n")
  have tc: "try_candidate w m t = try_candidate w ?m1 t" by simp
  show "(\<exists>res'. s = Continue res') \<Longrightarrow> fails (try_candidate w m t)"
    unfolding tc using assms ic
    by (auto simp: Join_body_def try_candidate_def fails_def Let_def
        split: sum.splits option.splits prod.splits if_splits)
  show "s = Return False second \<Longrightarrow>
           fails (try_candidate w m t) \<and> second \<and> int index = int (length targets) - 1"
    unfolding tc using assms ic
    by (auto simp: Join_body_def try_candidate_def fails_def Let_def
        split: sum.splits option.splits prod.splits if_splits)
qed

lemma Join_loop_Return_False:
  assumes "snd (Join_loop w targets index cs res m) = Return False second"
    and "index + length cs = length targets"
  shows "cs \<noteq> [] \<and> all_fail w targets index cs m"
  using assms
proof (induction cs arbitrary: index res m)
  case Nil
  then show ?case by simp
next
  case (Cons t cs)
  let ?b = "Join_body w targets index t res m"
  have fstb: "fst ?b = fst (Join_body w targets index t None m)" by (rule Join_body_res)
  show ?case
  proof (cases "snd ?b")
    case (Continue res1)
    from Join_body_classify(1) [OF Continue] have f: "fails (try_candidate w m t)" by blast
    from Cons.prems(1) Continue
    have "snd (Join_loop w targets (Suc index) cs res1 (fst ?b)) = Return False second"
      by (simp add: Join_loop_Cons del: Join_loop.simps)
    moreover from Cons.prems(2) have "Suc index + length cs = length targets" by simp
    ultimately have "all_fail w targets (Suc index) cs (fst ?b)" using Cons.IH by blast
    with f fstb show ?thesis by simp
  next
    case (Break res1)
    with Cons.prems(1) show ?thesis by (simp add: Join_loop_Cons del: Join_loop.simps)
  next
    case (Return j s)
    with Cons.prems(1) have js: "j = False" "s = second"
      by (simp_all add: Join_loop_Cons del: Join_loop.simps)
    from Join_body_classify(2) [OF Return, of second] js
    have f: "fails (try_candidate w m t)" and l: "int index = int (length targets) - 1"
      by simp_all
    from Cons.prems(2) have "Suc (index + length cs) = length targets" by simp
    with l have "length cs = 0" by arith
    then have "cs = []" by simp
    with f show ?thesis by simp
  next
    case (Abort a)
    with Cons.prems(1) show ?thesis by (simp add: Join_loop_Cons del: Join_loop.simps)
  qed
qed

lemma Join_false_true:
  assumes "snd (Join w m targets) = Inr (False, True)"
  shows "targets \<noteq> [] \<and> all_fail w targets 0 targets (Join_start m)"
proof -
  obtain m1 s where l: "Join_loop w targets 0 targets None (Join_start m) = (m1, s)"
    by (cases "Join_loop w targets 0 targets None (Join_start m)")
  from assms l have "s = Return False True"
    by (cases s) (auto simp: Join_def Join_start_def [symmetric] Join_after_def split: option.splits)
  with l have "snd (Join_loop w targets 0 targets None (Join_start m)) = Return False True"
    by simp
  from Join_loop_Return_False [OF this] show ?thesis by simp
qed

lemma Join_body_Return_second_False:
  assumes "snd (Join_body w targets index t res m) = Return joined False"
  shows "joined \<and> (\<exists>r. try_candidate w m t = Response r \<and> \<not> NameUnique r)"
proof -
  let ?n = "\<lparr>meshv1_Name = '''', meshv1_Target = t\<rparr>"
  let ?m1 = "logw ''join-routine'' DebugLevel ''Index %+v Targets: %+v'' m"
  obtain m2 e where ic: "initClient w ?m1 ?n = (m2, e)"
    by (cases "initClient w ?m1 ?n")
  have tc: "try_candidate w m t = try_candidate w ?m1 t" by simp
  show ?thesis
    unfolding tc using assms ic
    by (auto simp: Join_body_def try_candidate_def Let_def
        split: sum.splits option.splits prod.splits if_splits)
qed

lemma Join_loop_Return_second_False:
  assumes "snd (Join_loop w targets index cs res m) = Return joined False"
  shows "joined \<and>
         (\<exists>pre t post r. cs = pre @ t # post \<and> all_fail w targets index pre m \<and>
            try_candidate w (Join_state w targets index pre m) t = Response r \<and> \<not> NameUnique r)"
  using assms
proof (induction cs arbitrary: index res m)
  case Nil
  then show ?case by simp
next
  case (Cons t cs)
  let ?b = "Join_body w targets index t res m"
  have fstb: "fst ?b = fst (Join_body w targets index t None m)" by (rule Join_body_res)
  show ?case
  proof (cases "snd ?b")
    case (Continue res1)
    from Join_body_classify(1) [OF Continue] have f: "fails (try_candidate w m t)" by blast
    from Cons.prems Continue
    have "snd (Join_loop w targets (Suc index) cs res1 (fst ?b)) = Return joined False"
      by (simp add: Join_loop_Cons del: Join_loop.simps)
    from Cons.IH [OF this] obtain pre t' post r where j: joined
      and cs: "cs = pre @ t' # post"
      and af: "all_fail w targets (Suc index) pre (fst ?b)"
      and tc: "try_candidate w (Join_state w targets (Suc index) pre (fst ?b)) t' = Response r"
      and nu: "\<not> NameUnique r"
      by blast
    from cs have "t # cs = (t # pre) @ t' # post" by simp
    moreover from f af fstb have "all_fail w targets index (t # pre) m" by simp
    moreover from tc fstb
    have "try_candidate w (Join_state w targets index (t # pre) m) t' = Response r" by simp
    ultimately show ?thesis using j nu by blast
  next
    case (Break res1)
    with Cons.prems show ?thesis by (simp add: Join_loop_Cons del: Join_loop.simps)
  next
    case (Return j s)
    with Cons.prems have "snd ?b = Return joined False"
      by (simp add: Join_loop_Cons del: Join_loop.simps)
    from Join_body_Return_second_False [OF this] obtain r where j: joined
      and tc: "try_candidate w m t = Response r" and nu: "\<not> NameUnique r"
      by blast
    have "t # cs = [] @ t # cs" by simp
    moreover have "all_fail w targets index [] m" by simp
    moreover from tc have "try_candidate w (Join_state w targets index [] m) t = Response r" by simp
    ultimately show ?thesis using j nu by blast
  next
    case (Abort a)
    with Cons.prems show ?thesis by (simp add: Join_loop_Cons del: Join_loop.simps)
  qed
qed

lemma Join_second_False:
  assumes "snd (Join w m targets) = Inr (joined, False)"
  shows "joined \<and>
         (\<exists>pre t post r. targets = pre @ t # post \<and> all_fail w targets 0 pre (Join_start m) \<and>
            try_candidate w (Join_state w targets 0 pre (Join_start m)) t = Response r \<and>
            \<not> NameUnique r)"
proof -
  obtain m1 s where l: "Join_loop w targets 0 targets None (Join_start m) = (m1, s)"
    by (cases "Join_loop w targets 0 targets None (Join_start m)")
  from assms l have "s = Return joined False"
    by (cases s) (auto simp: Join_def Join_start_def [symmetric] Join_after_def split: option.splits)
  with l have "snd (Join_loop w targets 0 targets None (Join_start m)) = Return joined False"
    by simp
  from Join_loop_Return_second_False [OF this] show ?thesis .
qed

text \<open>
  Claim C1, amended. When the candidates before \<open>t\<close> fail and the JoinMesh request to
  \<open>t\<close> returns a response with \<open>nameUnique = true\<close>, \<open>Join\<close> returns \<open>(true, true)\<close>: the
  second component is \<open>true\<close> on a successful join. The pair \<open>(false, true)\<close> is returned
  only when the candidate list is not empty and every candidate failed. The second
  component is \<open>false\<close> only together with \<open>joined = true\<close>, when a candidate reached
  after failures answered with \<open>nameUnique = false\<close>.
\<close>

theorem Join_success:
  "(all_fail w (pre @ t # post) 0 pre (Join_start m) \<and>
    try_candidate w (Join_state w (pre @ t # post) 0 pre (Join_start m)) t = Response r \<and>
    NameUnique r \<longrightarrow>
      snd (Join w m (pre @ t # post)) = Inr (True, True)) \<and>
   (snd (Join w m targets) = Inr (False, True) \<longrightarrow>
      targets \<noteq> [] \<and> all_fail w targets 0 targets (Join_start m)) \<and>
   (snd (Join w m targets) = Inr (joined, False) \<longrightarrow>
      joined \<and>
      (\<exists>pre' t' post' r'. targets = pre' @ t' # post' \<and>
         all_fail w targets 0 pre' (Join_start m) \<and>
         try_candidate w (Join_state w targets 0 pre' (Join_start m)) t' = Response r' \<and>
         \<not> NameUnique r'))"
  using Join_joined [of w pre t post m r] Join_false_true [of w m targets]
    Join_second_False [of w m targets joined]
  by auto

theorem Join_success_witness:
  "all_fail (example_world (\<lambda>t. t = ''good'') (\<lambda>t. Some (example_response True)) True)
      ([''bad1''] @ ''good'' # [''other'']) 0 [''bad1''] (Join_start example_mesh) \<and>
   NameUnique (example_response True) \<and>
   snd (Join (example_world (\<lambda>t. t = ''good'') (\<lambda>t. Some (example_response True)) True)
          example_mesh [''bad1'', ''good'', ''other'']) = Inr (True, True) \<and>
   snd (Join (example_world (\<lambda>t. False) (\<lambda>t. None) True) example_mesh [''bad1'']) = Inr (False, True) \<and>
   all_fail (example_world (\<lambda>t. False) (\<lambda>t. None) True) [''bad1''] 0 [''bad1''] (Join_start example_mesh)"
proof -
  let ?G = "example_world (\<lambda>t. t = ''good'') (\<lambda>t. Some (example_response True)) True"
  let ?B = "example_world (\<lambda>t. False) (\<lambda>t. None) True"
  have a: "all_fail ?G ([''bad1''] @ ''good'' # [''other'']) 0 [''bad1''] (Join_start example_mesh)"
    by (simp add: eval_defs)
  have b: "try_candidate ?G (Join_state ?G ([''bad1''] @ ''good'' # [''other'']) 0 [''bad1'']
             (Join_start example_mesh)) ''good'' = Response (example_response True)"
    by (simp add: eval_defs)
  have c: "NameUnique (example_response True)" by (simp add: example_response_def)
  have d: "snd (Join ?B example_mesh [''bad1'']) = Inr (False, True)"
    by (simp add: Join_def Join_after_def eval_defs)
  have e: "snd (Join ?G example_mesh [''bad1'', ''good'', ''other'']) = Inr (True, True)"
    using Join_success [where w = ?G and pre = "[''bad1'']" and t = "''good''" and post = "[''other'']"
        and m = example_mesh and r = "example_response True"] a b c
    by simp
  have f: "all_fail ?B [''bad1''] 0 [''bad1''] (Join_start example_mesh)"
    using Join_success [where w = ?B and m = example_mesh and targets = "[''bad1'']"] d
    by blast
  from a c d e f show ?thesis by blast
qed

theorem Join_success_counterexample:
  "try_candidate (example_world (\<lambda>t. True) (\<lambda>t. Some (example_response True)) True)
      (Join_start example_mesh) ''good'' = Response (example_response True) \<and>
   NameUnique (example_response True) \<and>
   snd (Join (example_world (\<lambda>t. True) (\<lambda>t. Some (example_response True)) True)
          example_mesh [''good'']) = Inr (True, True) \<and>
   snd (Join (example_world (\<lambda>t. True) (\<lambda>t. Some (example_response True)) True)
          example_mesh [''good'']) \<noteq> Inr (True, False)"
  by (simp add: Join_def Join_after_def eval_defs example_response_def)

theorem Join_name_conflict_witness:
  "all_fail (example_world (\<lambda>t. t \<noteq> ''bad1'') (\<lambda>t. Some (example_response False)) True)
      ([''bad1''] @ ''good'' # [''other'']) 0 [''bad1''] (Join_start example_mesh) \<and>
   \<not> NameUnique (example_response False) \<and>
   snd (Join (example_world (\<lambda>t. t \<noteq> ''bad1'') (\<lambda>t. Some (example_response False)) True)
          example_mesh [''bad1'', ''good'', ''other'']) = Inr (True, False) \<and>
   Join (example_world (\<lambda>t. t \<noteq> ''bad1'') (\<lambda>t. Some (example_response False)) True)
          example_mesh [''bad1'', ''good'', ''other''] =
   Join (example_world (\<lambda>t. t \<noteq> ''bad1'') (\<lambda>t. Some (example_response False)) True)
          example_mesh [''bad1'', ''good'']"
proof -
  let ?G = "example_world (\<lambda>t. t \<noteq> ''bad1'') (\<lambda>t. Some (example_response False)) True"
  have a: "all_fail ?G ([''bad1''] @ ''good'' # [''other'']) 0 [''bad1''] (Join_start example_mesh)"
    by (simp add: eval_defs)
  have b: "try_candidate ?G (Join_state ?G ([''bad1''] @ ''good'' # [''other'']) 0 [''bad1'']
             (Join_start example_mesh)) ''good'' = Response (example_response False)"
    by (simp add: eval_defs)
  have c: "\<not> NameUnique (example_response False)" by (simp add: example_response_def)
  have e1: "snd (Join ?G example_mesh [''bad1'', ''good'', ''other'']) = Inr (True, False)"
    using Join_name_conflict [OF a b c, THEN conjunct1] by simp
  have e2: "Join ?G example_mesh [''bad1'', ''good'', ''other''] = Join ?G example_mesh [''bad1'', ''good'']"
    using Join_name_conflict [OF a b c, THEN conjunct2] by simp
  from a c e1 e2 show ?thesis by blast
qed

subsection \<open>The node table after Join\<close>

lemma Join_nodes_setupConfig [simp]:
  "setupConfig (Join_nodes w ns m) = setupConfig m"
  by (induction ns arbitrary: m) simp_all






subsection \<open>closeClient\<close>

text \<open>
  Claim C3. For a node whose id has no entry in the connection cache, \<open>closeClient\<close>
  returns no error value: \<open>m.clients[GetId(to)]\<close> is nil and \<open>.conn\<close> dereferences it,
  with the mutex held.
\<close>

theorem closeClient_without_connection:
  assumes "clients m (GetId w to) = None"
  shows "(\<forall>e. snd (closeClient w m to) \<noteq> Inr e) \<and>
         (\<not> mu m \<longrightarrow> closeClient w m to = (m\<lparr>mu := True\<rparr>, Inl NilDereference))"
  using assms by (simp add: closeClient_def Lock_def)

theorem closeClient_without_connection_witness:
  "clients example_mesh (GetId (example_world (\<lambda>t. True) (\<lambda>t. None) True) example_peer) = None \<and>
   \<not> mu example_mesh \<and>
   closeClient (example_world (\<lambda>t. True) (\<lambda>t. None) True) example_mesh example_peer =
     (example_mesh\<lparr>mu := True\<rparr>, Inl NilDereference)"
proof -
  have a: "clients example_mesh (GetId (example_world (\<lambda>t. True) (\<lambda>t. None) True) example_peer) = None"
    by (simp add: example_mesh_def)
  from closeClient_without_connection [OF a] a show ?thesis
    by (simp add: example_mesh_def)
qed

subsection \<open>pushSamples\<close>

text \<open>
  Claim C2, amended. With an empty sample list \<open>pushSamples\<close> sends no PushSamples
  request, but it calls \<open>initClient\<close> before it reads the list: when no connection to the
  node is cached it dials the node, and it returns the error of the dial when the dial
  fails; when the dial succeeds (and the mutex is free) the new connection is stored
  in the cache under the node's id. With a cached connection it makes no network call,
  returns no error and leaves the cache as it is.
\<close>

theorem pushSamples_empty_list:
  assumes "GetSampleList (database m) = []"
  shows "trace (fst (pushSamples w m node)) =
           (if clients m (GetId w node) \<noteq> None then trace m
            else trace m @ [Dial (meshv1_Target node)
                   [credentials_option w (setupConfig m), WithUnaryInterceptor_timeout]]) \<and>
         snd (pushSamples w m node) =
           (if clients m (GetId w node) \<noteq> None then Inr None
            else if \<not> grpc_Dial w (length (trace m)) (meshv1_Target node)
                        [credentials_option w (setupConfig m), WithUnaryInterceptor_timeout]
            then Inr (Some DialError)
            else if mu m then Inl Deadlock else Inr None) \<and>
         clients (fst (pushSamples w m node)) =
           (if clients m (GetId w node) = None \<and>
               grpc_Dial w (length (trace m)) (meshv1_Target node)
                 [credentials_option w (setupConfig m), WithUnaryInterceptor_timeout] \<and>
               \<not> mu m
            then (clients m)(GetId w node \<mapsto>
                   \<lparr>conn = \<lparr>Conn_id = length (trace m), Conn_target = meshv1_Target node\<rparr>,
                    client = NewMeshServiceClient
                      \<lparr>Conn_id = length (trace m), Conn_target = meshv1_Target node\<rparr>\<rparr>)
            else clients m)"
proof -
  obtain m1 r where ic: "initClient w m node = (m1, r)"
    by (cases "initClient w m node")
  from initClient_frame(2) [of w m node] ic assms have e: "GetSampleList (database m1) = []"
    by simp
  from ic e have 1: "trace (fst (pushSamples w m node)) = trace (fst (initClient w m node))"
    by (simp add: pushSamples_def Let_def split: sum.split option.split)
  from ic e have 2: "snd (pushSamples w m node) = snd (initClient w m node)"
    by (simp add: pushSamples_def Let_def split: sum.split option.split)
  from ic e have 3: "clients (fst (pushSamples w m node)) = clients (fst (initClient w m node))"
    by (simp add: pushSamples_def Let_def split: sum.split option.split)
  have 4: "clients (fst (initClient w m node)) =
           (if clients m (GetId w node) = None \<and>
               grpc_Dial w (length (trace m)) (meshv1_Target node)
                 [credentials_option w (setupConfig m), WithUnaryInterceptor_timeout] \<and>
               \<not> mu m
            then (clients m)(GetId w node \<mapsto>
                   \<lparr>conn = \<lparr>Conn_id = length (trace m), Conn_target = meshv1_Target node\<rparr>,
                    client = NewMeshServiceClient
                      \<lparr>Conn_id = length (trace m), Conn_target = meshv1_Target node\<rparr>\<rparr>)
            else clients m)"
    by (auto simp: initClient_clients initClient_snd)
  show ?thesis
    unfolding 1 2 3 4 initClient_trace initClient_snd by simp
qed

theorem pushSamples_empty_list_witness:
  "GetSampleList (database example_mesh) = [] \<and>
   trace (fst (pushSamples (example_world (\<lambda>t. True) (\<lambda>t. None) True) example_mesh example_peer)) =
     [Dial ''peer:8081'' [WithTransportCredentials_insecure, WithUnaryInterceptor_timeout]] \<and>
   snd (pushSamples (example_world (\<lambda>t. True) (\<lambda>t. None) True) example_mesh example_peer) = Inr None \<and>
   clients (fst (pushSamples (example_world (\<lambda>t. True) (\<lambda>t. None) True) example_mesh example_peer))
       (example_Hash ''peer:8081'') =
     Some \<lparr>conn = \<lparr>Conn_id = 0, Conn_target = ''peer:8081''\<rparr>,
           client = NewMeshServiceClient \<lparr>Conn_id = 0, Conn_target = ''peer:8081''\<rparr>\<rparr>"
proof -
  have a: "GetSampleList (database example_mesh) = []"
    by (simp add: GetSampleList_def example_mesh_def)
  from pushSamples_empty_list [OF a] a show ?thesis
    by (simp add: example_mesh_def example_world_def example_peer_def credentials_option_def GetId_def)
qed

theorem pushSamples_empty_list_counterexample:
  "GetSampleList (database example_mesh) = [] \<and>
   snd (pushSamples (example_world (\<lambda>t. False) (\<lambda>t. None) True) example_mesh example_peer) =
     Inr (Some DialError) \<and>
   trace (fst (pushSamples (example_world (\<lambda>t. False) (\<lambda>t. None) True) example_mesh example_peer)) =
     [Dial ''peer:8081'' [WithTransportCredentials_insecure, WithUnaryInterceptor_timeout]] \<and>
   trace (fst (pushSamples (example_world (\<lambda>t. True) (\<lambda>t. None) True) example_mesh example_peer)) =
     [Dial ''peer:8081'' [WithTransportCredentials_insecure, WithUnaryInterceptor_timeout]] \<and>
   clients (fst (pushSamples (example_world (\<lambda>t. True) (\<lambda>t. None) True) example_mesh example_peer))
       (example_Hash ''peer:8081'') =
     Some \<lparr>conn = \<lparr>Conn_id = 0, Conn_target = ''peer:8081''\<rparr>,
           client = NewMeshServiceClient \<lparr>Conn_id = 0, Conn_target = ''peer:8081''\<rparr>\<rparr>"
  by (simp add: pushSamples_def GetSampleList_def eval_defs example_peer_def)

subsection \<open>Rtt without a node in state OK\<close>

text \<open>
  Claim C8. When no node of the store is in state OK, \<open>Rtt\<close> returns after two log
  lines: no network event, no sample, no observation.
\<close>

theorem Rtt_without_OK_node:
  assumes "\<forall>n \<in> set (node_table (database m)). Node_State (snd n) \<noteq> NODE_OK w"
  shows "Rtt w m =
           (logw ''rtt'' DebugLevel ''No Node suitable for RTT measurement''
              (logw ''rtt'' DebugLevel ''Starting RTT measurement'' m), Inr ()) \<and>
         trace (fst (Rtt w m)) = trace m \<and>
         database (fst (Rtt w m)) = database m \<and>
         metrics (fst (Rtt w m)) = metrics m \<and>
         clients (fst (Rtt w m)) = clients m"
proof -
  from assms have "filter (\<lambda>n. Node_State n = NODE_OK w) (map snd (node_table (database m))) = []"
    by (auto simp: filter_empty_conv)
  then have "GetRandomNodeListByState (database m) (NODE_OK w) 1 (rand w (ticks m)) = []"
    by (simp add: GetRandomNodeListByState_def)
  then show ?thesis
    by (simp add: Rtt_def Let_def)
qed

theorem Rtt_without_OK_node_witness:
  "map (\<lambda>n. Node_State (snd n)) (node_table (example_store 2)) = [2] \<and>
   trace (fst (Rtt (example_world (\<lambda>t. True) (\<lambda>t. None) True)
                 (example_mesh\<lparr>database := example_store 2\<rparr>))) = [] \<and>
   metrics (fst (Rtt (example_world (\<lambda>t. True) (\<lambda>t. None) True)
                 (example_mesh\<lparr>database := example_store 2\<rparr>))) = [] \<and>
   database (fst (Rtt (example_world (\<lambda>t. True) (\<lambda>t. None) True)
                 (example_mesh\<lparr>database := example_store 2\<rparr>))) = example_store 2"
proof -
  let ?W = "example_world (\<lambda>t. True) (\<lambda>t. None) True"
  let ?M = "example_mesh\<lparr>database := example_store 2\<rparr>"
  have a: "\<forall>n \<in> set (node_table (database ?M)). Node_State (snd n) \<noteq> NODE_OK ?W"
    by (simp add: example_store_def example_world_def)
  have b: "map (\<lambda>n. Node_State (snd n)) (node_table (example_store 2)) = [2]"
    by (simp add: example_store_def)
  from Rtt_without_OK_node [OF a] b show ?thesis
    by (simp add: example_mesh_def)
qed

subsection \<open>A successful Rtt\<close>

lemma Sub_in_range:
  assumes "0 \<le> Time_mono u" and "Time_mono u \<le> Time_mono t" and "Time_mono t < 2 ^ 63"
  shows "Sub t u = Time_mono t - Time_mono u"
  using assms by (simp add: Sub_def Let_def maxDuration_def minDuration_def)

lemmas Rtt_unfold = Rtt_def Let_def Now_def Dial_call_def Rtt_rpc_def Close_call_def logw_def
  ReplaceGrpcLoggerV2_def credentials_option_def

lemma Rtt_success_path:
  assumes "GetRandomNodeListByState (database m) (NODE_OK w) 1 (rand w (ticks m)) = node # rest"
    and "grpc_Dial w (length (trace m)) (Node_Target node)
           [credentials_option w (setupConfig m), WithBlock]"
    and "rpc_Rtt w (Suc (length (trace m)))
           \<lparr>Conn_id = length (trace m), Conn_target = Node_Target node\<rparr>"
    and "Time_mono (time_Now w (ticks m)) = t0"
    and "Time_mono (time_Now w (ticks m + 1)) = t1"
    and "Time_mono (time_Now w (ticks m + 2)) = t2"
    and "t0 \<le> t1" and "t1 \<le> t2" and "0 \<le> t0" and "t2 < 2 ^ 63"
  shows "snd (Rtt w m) = Inr () \<and>
         database (fst (Rtt w m)) =
           SetSample w
             (SetSample w (database m)
                \<lparr>Sample_Id = 0, Sample_From = Config_Name (setupConfig m),
                 Sample_To = Node_Name node, Sample_Key = RTT_TOTAL w,
                 Sample_Value = FormatInt (t2 - t0),
                 Sample_Ts = Time_Unix (time_Now w (ticks m + 3))\<rparr>)
             \<lparr>Sample_Id = 0, Sample_From = Config_Name (setupConfig m),
              Sample_To = Node_Name node, Sample_Key = RTT_REQUEST w,
              Sample_Value = FormatInt (t2 - t1),
              Sample_Ts = Time_Unix (time_Now w (ticks m + 4))\<rparr> \<and>
         metrics (fst (Rtt w m)) =
           metrics m @ [(SampleName w (RTT_TOTAL w), Node_Name node, t2 - t0),
                        (SampleName w (RTT_REQUEST w), Node_Name node, t2 - t1)] \<and>
         t2 - t1 \<le> t2 - t0"
proof -
  have sH: "Sub (time_Now w (Suc (Suc (ticks m)))) (time_Now w (ticks m)) = t2 - t0"
    using assms by (subst Sub_in_range) simp_all
  have sR: "Sub (time_Now w (Suc (Suc (ticks m)))) (time_Now w (Suc (ticks m))) = t2 - t1"
    using assms by (subst Sub_in_range) simp_all
  let ?tls = "LoadClientTLSCredentials w (Config_CaCertPath (setupConfig m)) (Config_CaCert (setupConfig m))"
  have 1: "snd (Rtt w m) = Inr ()"
    using assms(1,2,3) by (cases ?tls) (simp_all add: Rtt_unfold)
  have 2: "database (fst (Rtt w m)) =
           SetSample w
             (SetSample w (database m)
                \<lparr>Sample_Id = 0, Sample_From = Config_Name (setupConfig m),
                 Sample_To = Node_Name node, Sample_Key = RTT_TOTAL w,
                 Sample_Value = FormatInt (t2 - t0),
                 Sample_Ts = Time_Unix (time_Now w (ticks m + 3))\<rparr>)
             \<lparr>Sample_Id = 0, Sample_From = Config_Name (setupConfig m),
              Sample_To = Node_Name node, Sample_Key = RTT_REQUEST w,
              Sample_Value = FormatInt (t2 - t1),
              Sample_Ts = Time_Unix (time_Now w (ticks m + 4))\<rparr>"
    using assms(1,2,3) sH sR by (cases ?tls) (simp_all add: Rtt_unfold eval_nat_numeral)
  have 3: "metrics (fst (Rtt w m)) =
           metrics m @ [(SampleName w (RTT_TOTAL w), Node_Name node, t2 - t0),
                        (SampleName w (RTT_REQUEST w), Node_Name node, t2 - t1)]"
    using assms(1,2,3) sH sR by (cases ?tls) (simp_all add: Rtt_unfold)
  from assms(7) have 4: "t2 - t1 \<le> t2 - t0" by simp
  from 1 2 3 4 show ?thesis by blast
qed

lemma map_of_SetSample:
  "map_of (sample_table (SetSample w db s)) k =
     (if k = GetSampleId w s then Some (s\<lparr>Sample_Id := GetSampleId w s\<rparr>)
      else map_of (sample_table db) k)"
  by (simp add: SetSample_def Let_def update_conv')

text \<open>
  Claim C7. A run of \<open>Rtt\<close> in which a node is selected, the dial succeeds and the RTT
  request succeeds, with readings \<open>t0 \<le> t1 \<le> t2\<close> of the monotonic clock (non-negative
  64-bit values), makes exactly two \<open>SetSample\<close> calls for the same pair (from, to):
  RTT_TOTAL with value \<open>t2 - t0\<close> and RTT_REQUEST with value \<open>t2 - t1\<close>; the same two
  durations are observed, and the first is not below the second. When the ids of the
  two samples differ, the sample table afterwards holds both samples under their ids,
  with these keys and values, and every other id holds what it held before.
\<close>

theorem Rtt_success_samples:
  assumes "GetRandomNodeListByState (database m) (NODE_OK w) 1 (rand w (ticks m)) = node # rest"
    and "grpc_Dial w (length (trace m)) (Node_Target node)
           [credentials_option w (setupConfig m), WithBlock]"
    and "rpc_Rtt w (Suc (length (trace m)))
           \<lparr>Conn_id = length (trace m), Conn_target = Node_Target node\<rparr>"
    and "Time_mono (time_Now w (ticks m)) = t0"
    and "Time_mono (time_Now w (ticks m + 1)) = t1"
    and "Time_mono (time_Now w (ticks m + 2)) = t2"
    and "t0 \<le> t1" and "t1 \<le> t2" and "0 \<le> t0" and "t2 < 2 ^ 63"
  shows "snd (Rtt w m) = Inr () \<and>
         database (fst (Rtt w m)) =
           SetSample w
             (SetSample w (database m)
                \<lparr>Sample_Id = 0, Sample_From = Config_Name (setupConfig m),
                 Sample_To = Node_Name node, Sample_Key = RTT_TOTAL w,
                 Sample_Value = FormatInt (t2 - t0),
                 Sample_Ts = Time_Unix (time_Now w (ticks m + 3))\<rparr>)
             \<lparr>Sample_Id = 0, Sample_From = Config_Name (setupConfig m),
              Sample_To = Node_Name node, Sample_Key = RTT_REQUEST w,
              Sample_Value = FormatInt (t2 - t1),
              Sample_Ts = Time_Unix (time_Now w (ticks m + 4))\<rparr> \<and>
         metrics (fst (Rtt w m)) =
           metrics m @ [(SampleName w (RTT_TOTAL w), Node_Name node, t2 - t0),
                        (SampleName w (RTT_REQUEST w), Node_Name node, t2 - t1)] \<and>
         t2 - t1 \<le> t2 - t0 \<and>
         (Hash w (Config_Name (setupConfig m) @ Node_Name node @ FormatInt (RTT_TOTAL w)) \<noteq>
          Hash w (Config_Name (setupConfig m) @ Node_Name node @ FormatInt (RTT_REQUEST w)) \<longrightarrow>
            map_of (sample_table (database (fst (Rtt w m))))
                (Hash w (Config_Name (setupConfig m) @ Node_Name node @ FormatInt (RTT_TOTAL w))) =
              Some \<lparr>Sample_Id =
                      Hash w (Config_Name (setupConfig m) @ Node_Name node @ FormatInt (RTT_TOTAL w)),
                    Sample_From = Config_Name (setupConfig m), Sample_To = Node_Name node,
                    Sample_Key = RTT_TOTAL w, Sample_Value = FormatInt (t2 - t0),
                    Sample_Ts = Time_Unix (time_Now w (ticks m + 3))\<rparr> \<and>
            map_of (sample_table (database (fst (Rtt w m))))
                (Hash w (Config_Name (setupConfig m) @ Node_Name node @ FormatInt (RTT_REQUEST w))) =
              Some \<lparr>Sample_Id =
                      Hash w (Config_Name (setupConfig m) @ Node_Name node @ FormatInt (RTT_REQUEST w)),
                    Sample_From = Config_Name (setupConfig m), Sample_To = Node_Name node,
                    Sample_Key = RTT_REQUEST w, Sample_Value = FormatInt (t2 - t1),
                    Sample_Ts = Time_Unix (time_Now w (ticks m + 4))\<rparr> \<and>
            (\<forall>k. k \<noteq> Hash w (Config_Name (setupConfig m) @ Node_Name node @ FormatInt (RTT_TOTAL w)) \<and>
                 k \<noteq> Hash w (Config_Name (setupConfig m) @ Node_Name node @ FormatInt (RTT_REQUEST w)) \<longrightarrow>
                 map_of (sample_table (database (fst (Rtt w m)))) k =
                   map_of (sample_table (database m)) k))"
proof -
  note p = Rtt_success_path [OF assms]
  from p have db: "database (fst (Rtt w m)) =
           SetSample w
             (SetSample w (database m)
                \<lparr>Sample_Id = 0, Sample_From = Config_Name (setupConfig m),
                 Sample_To = Node_Name node, Sample_Key = RTT_TOTAL w,
                 Sample_Value = FormatInt (t2 - t0),
                 Sample_Ts = Time_Unix (time_Now w (ticks m + 3))\<rparr>)
             \<lparr>Sample_Id = 0, Sample_From = Config_Name (setupConfig m),
              Sample_To = Node_Name node, Sample_Key = RTT_REQUEST w,
              Sample_Value = FormatInt (t2 - t1),
              Sample_Ts = Time_Unix (time_Now w (ticks m + 4))\<rparr>"
    by blast
  have "Hash w (Config_Name (setupConfig m) @ Node_Name node @ FormatInt (RTT_TOTAL w)) \<noteq>
          Hash w (Config_Name (setupConfig m) @ Node_Name node @ FormatInt (RTT_REQUEST w)) \<longrightarrow>
            map_of (sample_table (database (fst (Rtt w m))))
                (Hash w (Config_Name (setupConfig m) @ Node_Name node @ FormatInt (RTT_TOTAL w))) =
              Some \<lparr>Sample_Id =
                      Hash w (Config_Name (setupConfig m) @ Node_Name node @ FormatInt (RTT_TOTAL w)),
                    Sample_From = Config_Name (setupConfig m), Sample_To = Node_Name node,
                    Sample_Key = RTT_TOTAL w, Sample_Value = FormatInt (t2 - t0),
                    Sample_Ts = Time_Unix (time_Now w (ticks m + 3))\<rparr> \<and>
            map_of (sample_table (database (fst (Rtt w m))))
                (Hash w (Config_Name (setupConfig m) @ Node_Name node @ FormatInt (RTT_REQUEST w))) =
              Some \<lparr>Sample_Id =
                      Hash w (Config_Name (setupConfig m) @ Node_Name node @ FormatInt (RTT_REQUEST w)),
                    Sample_From = Config_Name (setupConfig m), Sample_To = Node_Name node,
                    Sample_Key = RTT_REQUEST w, Sample_Value = FormatInt (t2 - t1),
                    Sample_Ts = Time_Unix (time_Now w (ticks m + 4))\<rparr> \<and>
            (\<forall>k. k \<noteq> Hash w (Config_Name (setupConfig m) @ Node_Name node @ FormatInt (RTT_TOTAL w)) \<and>
                 k \<noteq> Hash w (Config_Name (setupConfig m) @ Node_Name node @ FormatInt (RTT_REQUEST w)) \<longrightarrow>
                 map_of (sample_table (database (fst (Rtt w m)))) k =
                   map_of (sample_table (database m)) k)"
    unfolding db by (simp add: map_of_SetSample GetSampleId_def)
  with p show ?thesis by blast
qed

lemma FormatInt_examples:
  "FormatInt 2000 = ''2000''" "FormatInt 1000 = ''1000''" "FormatInt 1 = ''1''" "FormatInt 2 = ''2''"
  by code_simp+

theorem Rtt_success_samples_witness:
  "sample_table (database (fst (Rtt (example_world (\<lambda>t. True) (\<lambda>t. None) True)
       (example_mesh\<lparr>database := example_store 1\<rparr>)))) =
     [(example_Hash ''selfpeer1'',
       \<lparr>Sample_Id = example_Hash ''selfpeer1'', Sample_From = ''self'', Sample_To = ''peer'',
        Sample_Key = 1, Sample_Value = ''2000'', Sample_Ts = 1700000000\<rparr>),
      (example_Hash ''selfpeer2'',
       \<lparr>Sample_Id = example_Hash ''selfpeer2'', Sample_From = ''self'', Sample_To = ''peer'',
        Sample_Key = 2, Sample_Value = ''1000'', Sample_Ts = 1700000000\<rparr>)] \<and>
   metrics (fst (Rtt (example_world (\<lambda>t. True) (\<lambda>t. None) True)
       (example_mesh\<lparr>database := example_store 1\<rparr>))) =
     [(''rtt_total'', ''peer'', 2000), (''rtt_request'', ''peer'', 1000)] \<and>
   snd (Rtt (example_world (\<lambda>t. True) (\<lambda>t. None) True)
       (example_mesh\<lparr>database := example_store 1\<rparr>)) = Inr ()"
proof -
  let ?W = "example_world (\<lambda>t. True) (\<lambda>t. None) True"
  let ?M = "example_mesh\<lparr>database := example_store 1\<rparr>"
  let ?node = "\<lparr>Node_Id = example_Hash ''peer:8081'', Node_Name = ''peer'',
           Node_Target = ''peer:8081'', Node_State = 1, Node_StateChangeTs = 0\<rparr>"
  have a: "GetRandomNodeListByState (database ?M) (NODE_OK ?W) 1 (rand ?W (ticks ?M)) = ?node # []"
    by (simp add: GetRandomNodeListByState_def example_store_def example_world_def example_mesh_def)
  have b: "grpc_Dial ?W (length (trace ?M)) (Node_Target ?node)
           [credentials_option ?W (setupConfig ?M), WithBlock]"
    by (simp add: example_world_def)
  have c: "rpc_Rtt ?W (Suc (length (trace ?M)))
           \<lparr>Conn_id = length (trace ?M), Conn_target = Node_Target ?node\<rparr>"
    by (simp add: example_world_def)
  have t: "Time_mono (time_Now ?W (ticks ?M)) = 5" "Time_mono (time_Now ?W (ticks ?M + 1)) = 1005"
    "Time_mono (time_Now ?W (ticks ?M + 2)) = 2005"
    by (simp_all add: example_world_def example_mesh_def)
  have h: "example_Hash ''selfpeer1'' \<noteq> example_Hash ''selfpeer2''"
    by (simp add: example_Hash_def)
  from Rtt_success_samples [OF a b c t] h show ?thesis
    by (simp add: SetSample_def GetSampleId_def Let_def FormatInt_examples example_world_def
        example_mesh_def example_store_def)
qed

subsection \<open>NodeDiscovery\<close>

text \<open>
  Claim C9. \<open>NodeDiscovery\<close> has no error result and never dereferences nil; with the
  mutex free it returns. It dials at most once and sends at most one request (no
  retry). When the connection fails it sends no request and logs a warning; when the
  request fails it logs a warning.
\<close>

theorem NodeDiscovery_swallows_errors:
  "snd (NodeDiscovery w m toNode newNode) \<noteq> Inl NilDereference \<and>
   (\<not> mu m \<longrightarrow> snd (NodeDiscovery w m toNode newNode) = Inr ()) \<and>
   (\<exists>evs. trace (fst (NodeDiscovery w m toNode newNode)) = trace m @ evs \<and>
      (evs = [] \<or> (\<exists>t opts. evs = [Dial t opts]) \<or>
       (\<exists>cc req. evs = [Call cc (NodeDiscoveryCall req)]) \<or>
       (\<exists>t opts cc req. evs = [Dial t opts, Call cc (NodeDiscoveryCall req)]))) \<and>
   (\<forall>e. snd (initClient w m toNode) = Inr (Some e) \<longrightarrow>
      trace (fst (NodeDiscovery w m toNode newNode)) = trace (fst (initClient w m toNode)) \<and>
      last (logger (fst (NodeDiscovery w m toNode newNode))) =
        (''discovery-routine'', WarnLevel,
         ''Could not connect to client - skip Node Discover Request'')) \<and>
   (snd (initClient w m toNode) = Inr None \<and>
    (\<forall>cc req. \<not> rpc_NodeDiscovery w (length (trace (fst (initClient w m toNode)))) cc req) \<longrightarrow>
      last (logger (fst (NodeDiscovery w m toNode newNode))) =
        (''discovery-routine'', WarnLevel,
         ''Could not start request to client - skip Node Discover Request''))"
proof -
  obtain m1 r where ic: "initClient w m toNode = (m1, r)"
    by (cases "initClient w m toNode")
  from initClient_snd [of w m toNode] ic
  have r: "r = Inr None \<or> r = Inr (Some DialError) \<or> (r = Inl Deadlock \<and> mu m)"
    by (auto split: if_splits)
  from initClient_trace [of w m toNode] ic
  have tr: "trace m1 = trace m \<or> (\<exists>t opts. trace m1 = trace m @ [Dial t opts])"
    by (auto split: if_splits)
  show ?thesis
  proof (cases "r = Inr None")
    case True
    with ic have "clients m1 (GetId w toNode) \<noteq> None" by (simp add: initClient_result_cached)
    then obtain c where c: "clients m1 (GetId w toNode) = Some c" by blast
    obtain cc where cc: "client c = NewMeshServiceClient cc" by (cases "client c")
    from ic True c cc tr show ?thesis
      by (auto simp: NodeDiscovery_def NodeDiscovery_rpc_def)
  next
    case False
    with r ic tr show ?thesis
      by (auto simp: NodeDiscovery_def)
  qed
qed

theorem NodeDiscovery_swallows_errors_witness:
  "snd (NodeDiscovery (example_world (\<lambda>t. False) (\<lambda>t. None) False) example_mesh example_peer
          \<lparr>meshv1_Name = ''new'', meshv1_Target = ''new:8081''\<rparr>) = Inr () \<and>
   last (logger (fst (NodeDiscovery (example_world (\<lambda>t. False) (\<lambda>t. None) False) example_mesh
          example_peer \<lparr>meshv1_Name = ''new'', meshv1_Target = ''new:8081''\<rparr>))) =
     (''discovery-routine'', WarnLevel, ''Could not connect to client - skip Node Discover Request'') \<and>
   snd (NodeDiscovery (example_world (\<lambda>t. True) (\<lambda>t. None) False) example_mesh example_peer
          \<lparr>meshv1_Name = ''new'', meshv1_Target = ''new:8081''\<rparr>) = Inr () \<and>
   last (logger (fst (NodeDiscovery (example_world (\<lambda>t. True) (\<lambda>t. None) False) example_mesh
          example_peer \<lparr>meshv1_Name = ''new'', meshv1_Target = ''new:8081''\<rparr>))) =
     (''discovery-routine'', WarnLevel, ''Could not start request to client - skip Node Discover Request'')"
proof -
  let ?D = "example_world (\<lambda>t. False) (\<lambda>t. None) False"
  let ?R = "example_world (\<lambda>t. True) (\<lambda>t. None) False"
  let ?new = "\<lparr>meshv1_Name = ''new'', meshv1_Target = ''new:8081''\<rparr>"
  have m: "\<not> mu example_mesh" by (simp add: example_mesh_def)
  have d: "snd (initClient ?D example_mesh example_peer) = Inr (Some DialError)"
    by (simp add: initClient_snd example_mesh_def example_world_def)
  have r: "snd (initClient ?R example_mesh example_peer) = Inr None"
    by (simp add: initClient_snd example_mesh_def example_world_def)
  have f: "\<forall>cc req. \<not> rpc_NodeDiscovery ?R (length (trace (fst (initClient ?R example_mesh example_peer)))) cc req"
    by (simp add: example_world_def)
  from NodeDiscovery_swallows_errors [of ?D example_mesh example_peer ?new] m d
  have 1: "snd (NodeDiscovery ?D example_mesh example_peer ?new) = Inr ()"
    and 2: "last (logger (fst (NodeDiscovery ?D example_mesh example_peer ?new))) =
     (''discovery-routine'', WarnLevel, ''Could not connect to client - skip Node Discover Request'')"
    by blast+
  from NodeDiscovery_swallows_errors [of ?R example_mesh example_peer ?new] m r f
  have 3: "snd (NodeDiscovery ?R example_mesh example_peer ?new) = Inr ()"
    and 4: "last (logger (fst (NodeDiscovery ?R example_mesh example_peer ?new))) =
     (''discovery-routine'', WarnLevel, ''Could not start request to client - skip Node Discover Request'')"
    by blast+
  from 1 2 3 4 show ?thesis by blast
qed

end
